theory Spec2Isabelle
  imports Complex_Main
begin

section \<open>Python strings\<close>

text \<open>
  A Python \<open>str\<close> is a sequence of code points; it is modelled as a \<open>string\<close>, one
  \<open>char\<close> per code point, which covers the code points below 256. \<open>str.strip()\<close>
  removes the characters for which \<open>str.isspace\<close> holds; below 256 these are
  U+0009..U+000D, U+001C..U+0020, U+0085 and U+00A0.
\<close>

definition is_space :: "char \<Rightarrow> bool" where
  "is_space c =
     (let n = (of_char c :: nat)
      in (9 \<le> n \<and> n \<le> 13) \<or> (28 \<le> n \<and> n \<le> 32) \<or> n = 133 \<or> n = 160)"

definition lstrip_by :: "(char \<Rightarrow> bool) \<Rightarrow> string \<Rightarrow> string" where
  "lstrip_by P s = dropWhile P s"

definition rstrip_by :: "(char \<Rightarrow> bool) \<Rightarrow> string \<Rightarrow> string" where
  "rstrip_by P s = rev (dropWhile P (rev s))"

definition strip_by :: "(char \<Rightarrow> bool) \<Rightarrow> string \<Rightarrow> string" where
  "strip_by P s = rstrip_by P (lstrip_by P s)"

text \<open>\<open>s.strip()\<close>, \<open>s.strip(chars)\<close> and \<open>s.rstrip(chars)\<close>.\<close>

definition strip :: "string \<Rightarrow> string" where
  "strip s = strip_by is_space s"

definition strip_chars :: "string \<Rightarrow> string \<Rightarrow> string" where
  "strip_chars chars s = strip_by (\<lambda>c. c \<in> set chars) s"

definition rstrip_chars :: "string \<Rightarrow> string \<Rightarrow> string" where
  "rstrip_chars chars s = rstrip_by (\<lambda>c. c \<in> set chars) s"

definition startswith :: "string \<Rightarrow> string \<Rightarrow> bool" where
  "startswith s p = (take (length p) s = p)"

definition removeprefix :: "string \<Rightarrow> string \<Rightarrow> string" where
  "removeprefix s p = (if startswith s p then drop (length p) s else s)"

text \<open>\<open>s.rjust(width, fill)\<close> pads on the left up to \<open>width\<close> characters.\<close>

definition rjust :: "string \<Rightarrow> nat \<Rightarrow> char \<Rightarrow> string" where
  "rjust s width fill = replicate (width - length s) fill @ s"

text \<open>The slices \<open>s[:-d]\<close> and \<open>s[-d:]\<close> for a positive \<open>d\<close>.\<close>

definition slice_to_neg :: "string \<Rightarrow> nat \<Rightarrow> string" where
  "slice_to_neg s d = take (length s - d) s"

definition slice_from_neg :: "string \<Rightarrow> nat \<Rightarrow> string" where
  "slice_from_neg s d = drop (length s - d) s"

section \<open>Python values read from JSON\<close>

datatype json =
    JNull
  | JBool bool
  | JInt int
  | JFloat real
  | JStr string
  | JList "json list"
  | JObj "(string \<times> json) list"

section \<open>Integers and their decimal text\<close>

definition is_digit :: "char \<Rightarrow> bool" where
  "is_digit c = (let n = (of_char c :: nat) in 48 \<le> n \<and> n \<le> 57)"

definition digit_val :: "char \<Rightarrow> nat" where
  "digit_val c = of_char c - 48"

text \<open>The digit character of a number below ten.\<close>

definition digit_char :: "nat \<Rightarrow> char" where
  "digit_char d = ''0123456789'' ! d"

text \<open>
  The body of an integer literal accepted by \<open>int(s)\<close>: one or more digits, where a
  single underscore may stand between two digits. The flag says whether the previous
  character was a digit.
\<close>

fun valid_body :: "bool \<Rightarrow> string \<Rightarrow> bool" where
  "valid_body prev [] = prev"
| "valid_body prev (c # cs) =
     (if is_digit c then valid_body True cs
      else if c = CHR ''_'' \<and> prev then valid_body False cs
      else False)"

definition body_value :: "string \<Rightarrow> nat" where
  "body_value s = foldl (\<lambda>acc c. 10 * acc + digit_val c) 0 (filter is_digit s)"

text \<open>
  The interpreter converts no more than \<open>sys.int_max_str_digits\<close> digits between text
  and integer, 4300 unless the program changes it, which this one does not.
\<close>

definition int_max_str_digits :: nat where
  "int_max_str_digits = 4300"

text \<open>
  \<open>int(s)\<close> for a string: surrounding whitespace is dropped, one sign is allowed, and
  anything else raises \<open>ValueError\<close>, here \<open>None\<close>. So does a literal with more
  digits than the limit, zeros at the front counted and underscores not.
\<close>

definition py_int :: "string \<Rightarrow> int option" where
  "py_int s =
     (let t = strip s;
          neg = (case t of c # _ \<Rightarrow> c = CHR ''-'' | [] \<Rightarrow> False);
          body = (case t of c # r \<Rightarrow> if c = CHR ''-'' \<or> c = CHR ''+'' then r else t | [] \<Rightarrow> t)
      in if valid_body False body \<and> length (filter is_digit body) \<le> int_max_str_digits
         then Some (if neg then - int (body_value body) else int (body_value body))
         else None)"

fun string_of_nat :: "nat \<Rightarrow> string" where
  "string_of_nat n =
     (if n < 10 then [digit_char n] else string_of_nat (n div 10) @ [digit_char (n mod 10)])"

declare string_of_nat.simps [simp del]

definition string_of_int :: "int \<Rightarrow> string" where
  "string_of_int i = (if i < 0 then CHR ''-'' # string_of_nat (nat (- i)) else string_of_nat (nat i))"

text \<open>
  \<open>int(str(value))\<close> for an arbitrary value. \<open>str\<close> of a string is the string.
  \<open>str\<close> of an integer is its decimal text, which \<open>int\<close> reads back; \<open>str\<close> raises
  \<open>ValueError\<close> inside the \<open>try\<close> block when the integer has more digits than the
  limit. The text of \<open>None\<close>, of a boolean, of a float (it always holds a point, an
  exponent, \<open>inf\<close> or \<open>nan\<close>), of a list and of a dict is never an integer literal,
  so \<open>int\<close> raises.
\<close>

fun int_of_str :: "json \<Rightarrow> int option" where
  "int_of_str (JStr s) = py_int s"
| "int_of_str (JInt i) = (if \<bar>i\<bar> < 10 ^ int_max_str_digits then Some i else None)"
| "int_of_str _ = None"

section \<open>Decimal and URI normalizers\<close>

text \<open>
  \<open>_safe_decimal_str(value, decimals)\<close>. The integer that \<open>int\<close> returned has no more
  digits than the limit, so \<open>str(raw)\<close> on line 125 does not raise.
\<close>

definition safe_decimal_str :: "json \<Rightarrow> int \<Rightarrow> string option" where
  "safe_decimal_str v decimals =
     (case int_of_str v of
        None \<Rightarrow> None
      | Some raw \<Rightarrow>
          if decimals \<le> 0 then Some (string_of_int raw)
          else
            let d = nat decimals;
                s = rjust (string_of_int raw) (d + 1) CHR ''0'';
                whole = (if slice_to_neg s d = [] then ''0'' else slice_to_neg s d);
                frac = rstrip_chars ''0'' (slice_from_neg s d)
            in if frac = [] then Some whole else Some (whole @ ''.'' @ frac))"

text \<open>
  The last \<open>d\<close> decimal digits of a number, with zeros in front where the number is
  shorter: the fraction part that the split at \<open>d\<close> digits is meant to give.
\<close>

fun last_digits :: "nat \<Rightarrow> nat \<Rightarrow> string" where
  "last_digits 0 n = []"
| "last_digits (Suc d) n = last_digits d (n div 10) @ [digit_char (n mod 10)]"

text \<open>\<open>_normalize_ipfs(uri)\<close>.\<close>

definition normalize_ipfs :: "string \<Rightarrow> string" where
  "normalize_ipfs uri =
     (let s = strip (strip_chars ''`'' (strip uri))
      in if startswith s ''ipfs://''
         then ''https://ipfs.io/ipfs/'' @ removeprefix s ''ipfs://''
         else s)"

text \<open>
  Whether a string begins or ends with one of the characters of \<open>P\<close>, and whether
  it begins or ends with a backtick.
\<close>

definition clean_ends :: "(char \<Rightarrow> bool) \<Rightarrow> string \<Rightarrow> bool" where
  "clean_ends P s = (case s of [] \<Rightarrow> True | c # cs \<Rightarrow> \<not> P c \<and> \<not> P (last s))"

definition backtick_at_end :: "string \<Rightarrow> bool" where
  "backtick_at_end s = (case s of [] \<Rightarrow> False | c # cs \<Rightarrow> c = CHR 0x60 \<or> last s = CHR 0x60)"

section \<open>State store\<close>

text \<open>
  A Python \<open>float\<close> is an IEEE 754 binary64 number. It is modelled as the real number
  it denotes; the values \<open>nan\<close> and \<open>inf\<close> and the sign of zero are left out. The
  comparisons \<open><\<close> and \<open><=\<close> of two floats are those of the reals. Every arithmetic
  operation returns the float nearest to the exact result, a tie going to the
  neighbour with an even significand.
\<close>

text \<open>Rounding to the nearest integer, a tie going to the even neighbour.\<close>

definition round_half_even :: "real \<Rightarrow> int" where
  "round_half_even y =
     (let f = \<lfloor>y\<rfloor>; d = y - of_int f
      in if d < 1 / 2 then f
         else if 1 / 2 < d then f + 1
         else if even f then f
         else f + 1)"

text \<open>
  A positive number \<open>a * q\<close> is brought to the form \<open>m * q'\<close> with
  \<open>2 ^ 52 \<le> m < 2 ^ 53\<close> and \<open>q'\<close> a power of two, the quantum of the floats around
  it. Doubling stops after 1074 steps, at the quantum \<open>2 ^ -1074\<close> of the subnormal
  numbers; halving stops after 971 steps, at the quantum \<open>2 ^ 971\<close> of the largest
  floats.
\<close>

fun scale_up :: "nat \<Rightarrow> real \<Rightarrow> real \<Rightarrow> real \<times> real" where
  "scale_up k a q =
     (if k = 0 \<or> 2 ^ 52 \<le> a then (a, q) else scale_up (k - 1) (a * 2) (q / 2))"

fun scale_down :: "nat \<Rightarrow> real \<Rightarrow> real \<Rightarrow> real \<times> real" where
  "scale_down k a q =
     (if k = 0 \<or> a < 2 ^ 53 then (a, q) else scale_down (k - 1) (a / 2) (q * 2))"

declare scale_up.simps [simp del] scale_down.simps [simp del]

text \<open>
  The float nearest to a real number: the significand is rounded to an integer at the
  quantum of the number. (A result of \<open>2 ^ 1024\<close> or more is \<open>inf\<close> in Python and is
  not modelled.)
\<close>

definition binary64 :: "real \<Rightarrow> real" where
  "binary64 x =
     (if x = 0 then 0
      else let (m, q) = (if \<bar>x\<bar> < 2 ^ 52 then scale_up 1074 \<bar>x\<bar> 1 else scale_down 971 \<bar>x\<bar> 1)
           in sgn x * of_int (round_half_even m) * q)"

text \<open>The operators \<open>*\<close>, \<open>-\<close> and \<open>/\<close> on floats.\<close>

definition float_mul :: "real \<Rightarrow> real \<Rightarrow> real" where
  "float_mul a b = binary64 (a * b)"

definition float_sub :: "real \<Rightarrow> real \<Rightarrow> real" where
  "float_sub a b = binary64 (a - b)"

definition float_div :: "real \<Rightarrow> real \<Rightarrow> real" where
  "float_div a b = binary64 (a / b)"

text \<open>
  \<open>round(x, 2)\<close> for a float: the exact value of \<open>x\<close> is rounded to the nearest
  multiple of one hundredth, a tie going to the even neighbour, and the result is the
  float nearest to that decimal.
\<close>

definition round2 :: "real \<Rightarrow> real" where
  "round2 x = binary64 (of_int (round_half_even (x * 100)) / 100)"

text \<open>
  The table \<open>floors(rarity, price, updated_at, threshold_percent)\<close> and the table
  \<open>notifications(item_id, last_price, last_at)\<close>; a column that holds \<open>NULL\<close> is
  \<open>None\<close>.
\<close>

record floor_row =
  price :: "real option"
  updated_at :: string
  threshold_percent :: "real option"

record notification_row =
  last_price :: real
  last_at :: string

record db =
  floors :: "string \<rightharpoonup> floor_row"
  notifications :: "string \<rightharpoonup> notification_row"

definition get_floor :: "db \<Rightarrow> string \<Rightarrow> real option" where
  "get_floor conn rarity =
     (case floors conn rarity of None \<Rightarrow> None | Some row \<Rightarrow> price row)"

text \<open>\<open>set_floor\<close>: an upsert that writes the rounded price and the time stamp \<open>ts\<close>.\<close>

definition set_floor :: "db \<Rightarrow> string \<Rightarrow> real \<Rightarrow> string \<Rightarrow> db" where
  "set_floor conn rarity p ts =
     conn\<lparr>floors := (floors conn)(rarity \<mapsto>
        (case floors conn rarity of
           None \<Rightarrow> \<lparr>price = Some (round2 p), updated_at = ts, threshold_percent = None\<rparr>
         | Some row \<Rightarrow> row\<lparr>price := Some (round2 p), updated_at := ts\<rparr>))\<rparr>"

definition get_notified :: "db \<Rightarrow> string \<Rightarrow> real option" where
  "get_notified conn item =
     (case notifications conn item of None \<Rightarrow> None | Some row \<Rightarrow> Some (last_price row))"

definition set_notified :: "db \<Rightarrow> string \<Rightarrow> real \<Rightarrow> string \<Rightarrow> db" where
  "set_notified conn item p ts =
     conn\<lparr>notifications := (notifications conn)(item \<mapsto>
        \<lparr>last_price = round2 p, last_at = ts\<rparr>)\<rparr>"

definition get_threshold :: "db \<Rightarrow> string \<Rightarrow> real" where
  "get_threshold conn rarity =
     (case floors conn rarity of
        None \<Rightarrow> 50
      | Some row \<Rightarrow> (case threshold_percent row of None \<Rightarrow> 50 | Some t \<Rightarrow> t))"

text \<open>
  \<open>set_threshold\<close>: a new row has no price and an empty time stamp; an existing row
  keeps its price and its time stamp.
\<close>

definition set_threshold :: "db \<Rightarrow> string \<Rightarrow> real \<Rightarrow> db" where
  "set_threshold conn rarity percent =
     conn\<lparr>floors := (floors conn)(rarity \<mapsto>
        (case floors conn rarity of
           None \<Rightarrow> \<lparr>price = None, updated_at = [], threshold_percent = Some percent\<rparr>
         | Some row \<Rightarrow> row\<lparr>threshold_percent := Some percent\<rparr>))\<rparr>"

text \<open>
  \<open>ensure_threshold_column\<close>, run once at start: every stored row without a threshold
  gets the default.
\<close>

definition ensure_threshold_column :: "db \<Rightarrow> db" where
  "ensure_threshold_column conn =
     conn\<lparr>floors := (\<lambda>k. case floors conn k of
        None \<Rightarrow> None
      | Some row \<Rightarrow> Some (case threshold_percent row of
                             None \<Rightarrow> row\<lparr>threshold_percent := Some 50\<rparr>
                           | Some t \<Rightarrow> row))\<rparr>"

section \<open>Floor and alert engine\<close>

text \<open>
  The record that \<open>_enrich\<close> returns for one item. The key \<open>price\<close> is the field
  \<open>listing_price\<close>; \<open>token_id\<close> and \<open>item_id\<close> are the item's \<open>tokenId\<close> and
  \<open>id\<close> as they came, of any type.
\<close>

record enriched =
  image_url :: "string option"
  preview_url :: "string option"
  listing_price :: "string option"
  currency :: "string option"
  rarible_url :: "string option"
  opensea_url :: "string option"
  token_id :: json
  item_id :: json
  rarity :: "string option"
  price_usd :: "real option"

text \<open>
  What \<open>run\<close> reads from the environment: whether a bot was built from
  \<open>BOT_TOKEN\<close>, and \<open>CHANNEL_ID\<close>.
\<close>

record config =
  bot :: bool
  channel_id :: "string option"

text \<open>
  The image download and the Telegram calls inside the \<open>try\<close> block are external;
  their joint outcome is an input of the model: either some message went out and the
  block ran on, or one of the calls raised.
\<close>

datatype delivery = Delivered | Raised

text \<open>The log lines of the loop body, in the order of the source.\<close>

datatype event =
    Compare
  | Trigger
  | Sending
  | Sent
  | FloorImmediate
  | SendFailed
  | FloorInit
  | FloorUpdated

text \<open>Truth value of an optional string: \<open>None\<close> and the empty string are false.\<close>

definition truthy_str :: "string option \<Rightarrow> bool" where
  "truthy_str v = (case v of None \<Rightarrow> False | Some s \<Rightarrow> s \<noteq> [])"

text \<open>
  The condition of line 605,
  \<open>round(price_usd, 2) <= round(floor_price * (1 - th / 100.0), 2)\<close>, in float
  arithmetic.
\<close>

definition alert_condition :: "real option \<Rightarrow> real option \<Rightarrow> real \<Rightarrow> bool" where
  "alert_condition p_usd floor_price th =
     (case p_usd of
        None \<Rightarrow> False
      | Some p \<Rightarrow> (case floor_price of
                     None \<Rightarrow> False
                   | Some f \<Rightarrow> round2 p \<le> round2 (float_mul f (float_sub 1 (float_div th 100)))))"

definition stored_floor :: "db \<Rightarrow> enriched \<Rightarrow> real option" where
  "stored_floor conn r = (case rarity r of Some rar \<Rightarrow> get_floor conn rar | None \<Rightarrow> None)"

definition stored_threshold :: "db \<Rightarrow> enriched \<Rightarrow> real" where
  "stored_threshold conn r = (case rarity r of Some rar \<Rightarrow> get_threshold conn rar | None \<Rightarrow> 50)"

definition last_notified_price :: "db \<Rightarrow> enriched \<Rightarrow> real option" where
  "last_notified_price conn r = (case item_id r of JStr i \<Rightarrow> get_notified conn i | _ \<Rightarrow> None)"

definition should_notify :: "real option \<Rightarrow> real \<Rightarrow> bool" where
  "should_notify last_notified p = (case last_notified of None \<Rightarrow> True | Some l \<Rightarrow> p < l)"

definition notify_gate :: "config \<Rightarrow> enriched \<Rightarrow> bool" where
  "notify_gate cfg r = (bot cfg \<and> truthy_str (channel_id cfg) \<and> truthy_str (image_url r))"

text \<open>
  Lines 601 to 645 of the loop body: the comparison, the trigger, the check against the
  last notified price, the delivery and the two writes that follow it.
\<close>

definition alert_rule :: "config \<Rightarrow> enriched \<Rightarrow> delivery \<Rightarrow> string \<Rightarrow> db \<Rightarrow> db \<times> event list" where
  "alert_rule cfg r dlv ts conn =
     (case price_usd r of
        None \<Rightarrow> (conn, [])
      | Some p \<Rightarrow>
          (case stored_floor conn r of
             None \<Rightarrow> (conn, [])
           | Some f \<Rightarrow>
               if alert_condition (Some p) (Some f) (stored_threshold conn r) then
                 if should_notify (last_notified_price conn r) p \<and> notify_gate cfg r then
                   (case dlv of
                      Raised \<Rightarrow> (conn, [Compare, Trigger, Sending, SendFailed])
                    | Delivered \<Rightarrow>
                        let c1 = (case rarity r of Some rar \<Rightarrow> set_floor conn rar p ts | None \<Rightarrow> conn);
                            c2 = (case item_id r of JStr i \<Rightarrow> set_notified c1 i p ts | _ \<Rightarrow> c1)
                        in (c2, [Compare, Trigger, Sending, Sent] @
                                (case rarity r of Some rar \<Rightarrow> [FloorImmediate] | None \<Rightarrow> [])))
                 else (conn, [Compare, Trigger])
               else (conn, [Compare])))"

text \<open>Lines 646 to 648: the floor is written on the first tick.\<close>

definition init_rule :: "nat \<Rightarrow> enriched \<Rightarrow> string \<Rightarrow> db \<Rightarrow> db \<times> event list" where
  "init_rule tick r ts conn =
     (case price_usd r of
        None \<Rightarrow> (conn, [])
      | Some p \<Rightarrow>
          (case rarity r of
             None \<Rightarrow> (conn, [])
           | Some rar \<Rightarrow> if tick = 1 then (set_floor conn rar p ts, [FloorInit]) else (conn, [])))"

text \<open>Lines 649 to 651: the floor is written on every third tick.\<close>

definition refresh_rule :: "nat \<Rightarrow> enriched \<Rightarrow> string \<Rightarrow> db \<Rightarrow> db \<times> event list" where
  "refresh_rule tick r ts conn =
     (case price_usd r of
        None \<Rightarrow> (conn, [])
      | Some p \<Rightarrow>
          (case rarity r of
             None \<Rightarrow> (conn, [])
           | Some rar \<Rightarrow> if tick mod 3 = 0 then (set_floor conn rar p ts, [FloorUpdated]) else (conn, [])))"

text \<open>The body of \<open>for r in results\<close> for one record.\<close>

definition process_result :: "config \<Rightarrow> nat \<Rightarrow> enriched \<Rightarrow> delivery \<Rightarrow> string \<Rightarrow> db \<Rightarrow> db \<times> event list" where
  "process_result cfg tick r dlv ts conn =
     (let (c1, l1) = alert_rule cfg r dlv ts conn;
          (c2, l2) = init_rule tick r ts c1;
          (c3, l3) = refresh_rule tick r ts c2
      in (c3, l1 @ l2 @ l3))"

text \<open>
  One tick handles its records in order; each record comes with the outcome of its
  delivery, should one be tried, and with the clock's reading.
\<close>

fun process_results :: "config \<Rightarrow> nat \<Rightarrow> (enriched \<times> delivery \<times> string) list \<Rightarrow> db \<Rightarrow> db \<times> event list" where
  "process_results cfg tick [] conn = (conn, [])"
| "process_results cfg tick ((r, dlv, ts) # rest) conn =
     (let (c1, l1) = process_result cfg tick r dlv ts conn;
          (c2, l2) = process_results cfg tick rest c1
      in (c2, l1 @ l2))"

text \<open>
  The loop \<open>while True\<close> never ends; the model runs it for as many ticks as there are
  observations and returns the store after each tick. The counter is incremented
  before the tick's work.
\<close>

fun run_ticks :: "config \<Rightarrow> nat \<Rightarrow> (enriched \<times> delivery \<times> string) list list \<Rightarrow> db \<Rightarrow> db list" where
  "run_ticks cfg tick [] conn = []"
| "run_ticks cfg tick (obs # rest) conn =
     (let conn' = fst (process_results cfg (tick + 1) obs conn)
      in conn' # run_ticks cfg (tick + 1) rest conn')"

definition run :: "config \<Rightarrow> (enriched \<times> delivery \<times> string) list list \<Rightarrow> db \<Rightarrow> db list" where
  "run cfg observations stored = run_ticks cfg 0 observations (ensure_threshold_column stored)"

text \<open>Sample values: a configured bot, one item of rarity Rare, and a store.\<close>

definition sample_config :: config where
  "sample_config = \<lparr>bot = True, channel_id = Some ''@winks''\<rparr>"

definition sample_item :: "json \<Rightarrow> string option \<Rightarrow> real \<Rightarrow> enriched" where
  "sample_item ident img p =
     \<lparr>image_url = img, preview_url = None, listing_price = None, currency = Some ''ETH'',
      rarible_url = None, opensea_url = None, token_id = JStr ''7'', item_id = ident,
      rarity = Some ''Rare'', price_usd = Some p\<rparr>"

definition sample_store :: "real \<Rightarrow> real option \<Rightarrow> real option \<Rightarrow> db" where
  "sample_store f th lastp =
     \<lparr>floors = [''Rare'' \<mapsto> \<lparr>price = Some f, updated_at = ''t0'', threshold_percent = th\<rparr>],
      notifications =
        (case lastp of
           None \<Rightarrow> Map.empty
         | Some l \<Rightarrow> [''item-1'' \<mapsto> \<lparr>last_price = l, last_at = ''t0''\<rparr>])\<rparr>"

definition empty_store :: db where
  "empty_store = \<lparr>floors = Map.empty, notifications = Map.empty\<rparr>"

text \<open>One tick's observations: the sample item at a given price.\<close>

definition watch :: "json \<Rightarrow> string option \<Rightarrow> delivery \<Rightarrow> real \<Rightarrow> (enriched \<times> delivery \<times> string) list" where
  "watch ident img dlv p = [(sample_item ident img p, dlv, ''t'')]"

section \<open>Case mapping and splitting of strings\<close>

text \<open>
  \<open>str.lower()\<close> on the code points below 256: the letters A to Z and the capital
  letters U+00C0 to U+00DE (the sign U+00D7 apart) move up by 32.
\<close>

definition lower_char :: "char \<Rightarrow> char" where
  "lower_char c =
     (case map_of (zip ''ABCDEFGHIJKLMNOPQRSTUVWXYZ'' ''abcdefghijklmnopqrstuvwxyz'') c of
        Some l \<Rightarrow> l
      | None \<Rightarrow>
          (let n = (of_char c :: nat)
           in if 192 \<le> n \<and> n \<le> 222 \<and> n \<noteq> 215 then char_of (n + 32) else c))"

definition lower :: "string \<Rightarrow> string" where
  "lower s = map lower_char s"

text \<open>
  \<open>str.upper()\<close> on the code points below 256: the letters a to z and the small
  letters U+00E0 to U+00FE (the sign U+00F7 apart) move down by 32, and the sharp s
  U+00DF becomes \<open>SS\<close>. The capitals of U+00B5 and U+00FF lie beyond U+00FF; these two
  characters are left as they are, which changes no comparison with an ASCII word.
\<close>

definition upper_char :: "char \<Rightarrow> string" where
  "upper_char c =
     (case map_of (zip ''abcdefghijklmnopqrstuvwxyz'' ''ABCDEFGHIJKLMNOPQRSTUVWXYZ'') c of
        Some u \<Rightarrow> [u]
      | None \<Rightarrow>
          (let n = (of_char c :: nat)
           in if n = 223 then ''SS''
              else if 224 \<le> n \<and> n \<le> 254 \<and> n \<noteq> 247 then [char_of (n - 32)]
              else [c]))"

definition upper :: "string \<Rightarrow> string" where
  "upper s = concat (map upper_char s)"

text \<open>\<open>s.split(sep)\<close> for a separator of one character, and \<open>s.split()\<close>.\<close>

fun split_on :: "char \<Rightarrow> string \<Rightarrow> string list" where
  "split_on sep [] = [[]]"
| "split_on sep (c # cs) =
     (if c = sep then [] # split_on sep cs
      else (case split_on sep cs of w # ws \<Rightarrow> (c # w) # ws | [] \<Rightarrow> [[c]]))"

fun split_ws :: "string \<Rightarrow> string list" where
  "split_ws [] = []"
| "split_ws (c # cs) =
     (if is_space c then split_ws cs
      else (case cs of
              [] \<Rightarrow> [[c]]
            | d # _ \<Rightarrow>
                if is_space d then [c] # split_ws cs
                else (case split_ws cs of w # ws \<Rightarrow> (c # w) # ws | [] \<Rightarrow> [[c]])))"

section \<open>The command that sets a threshold\<close>

definition rarities :: "string list" where
  "rarities = [''Legendary'', ''Epic'', ''Rare'', ''Uncommon'', ''Common'']"

text \<open>
  The replies of \<open>_handle_set\<close>: \<open>Use the format: /set Rarity, Percent\<close>,
  \<open>Rarity must be one of: Legendary, Epic, Rare, Uncommon, Common\<close>,
  \<open>Percent must be a number between 1 and 100\<close>, and
  \<open>Threshold updated for\<close> a rarity with its percentage.
\<close>

datatype reply =
    UseFormat
  | RarityUnknown
  | PercentInvalid
  | ThresholdUpdated string real

text \<open>
  The dictionary \<open>{r.lower(): r for r in rarities}\<close>, in which a later entry would
  replace an earlier one with the same key.
\<close>

definition rarity_norm :: "string \<Rightarrow> string option" where
  "rarity_norm rarity_in = map_of (rev (map (\<lambda>r. (lower r, r)) rarities)) rarity_in"

text \<open>
  The first half of \<open>_handle_set\<close>, from the text of the message to the rarity and the
  text of the percentage: \<open>Inl\<close> is the reply of an early return.
\<close>

definition parse_set :: "string \<Rightarrow> reply + string \<times> string" where
  "parse_set text =
     (let txt = strip text;
          payload = strip (drop 4 txt)
      in if payload = [] then Inl UseFormat
         else
           let parts0 = filter (\<lambda>p. p \<noteq> []) (map strip (split_on CHR '','' payload));
               parts = (if length parts0 \<noteq> 2 then filter (\<lambda>p. p \<noteq> []) (split_ws payload)
                        else parts0)
           in if length parts \<noteq> 2 then Inl UseFormat
              else (case rarity_norm (lower (parts ! 0)) of
                      None \<Rightarrow> Inl RarityUnknown
                    | Some r \<Rightarrow> if r = [] then Inl RarityUnknown else Inr (r, parts ! 1)))"

text \<open>
  \<open>_handle_set\<close>. The message text may be absent. \<open>to_float\<close> stands for Python's
  \<open>float\<close> on a string, \<open>None\<close> when it raises; the values \<open>nan\<close> and \<open>inf\<close>, which
  \<open>float\<close> accepts, fail the range test and get the same reply, so that \<open>None\<close> stands for
  them too. The flag \<open>chat_ok\<close> of the source is always true. The store and the
  Telegram calls are taken not to raise.
\<close>

definition handle_set :: "(string \<Rightarrow> real option) \<Rightarrow> string option \<Rightarrow> db \<Rightarrow> db \<times> reply option" where
  "handle_set to_float text conn =
     (case text of
        None \<Rightarrow> (conn, None)
      | Some t \<Rightarrow>
          if t = [] then (conn, None)
          else (case parse_set t of
                  Inl rep \<Rightarrow> (conn, Some rep)
                | Inr (rarity_in, percent_in) \<Rightarrow>
                    (case to_float percent_in of
                       None \<Rightarrow> (conn, Some PercentInvalid)
                     | Some percent_val \<Rightarrow>
                         if \<not> (0 < percent_val \<and> percent_val \<le> 100)
                         then (conn, Some PercentInvalid)
                         else (set_threshold conn rarity_in percent_val,
                               Some (ThresholdUpdated rarity_in percent_val)))))"

text \<open>A reading of \<open>float\<close> on the few texts the examples use.\<close>

definition sample_float :: "string \<Rightarrow> real option" where
  "sample_float s =
     (if s = ''30'' then Some 30
      else if s = ''100'' then Some 100
      else if s = ''0'' then Some 0
      else if s = ''100.5'' then Some 100.5
      else None)"

section \<open>Metadata resolver\<close>

text \<open>The only exception the extractor can raise on a value read from JSON.\<close>

datatype error = AttributeError

text \<open>Truth value of a Python value.\<close>

fun truthy :: "json \<Rightarrow> bool" where
  "truthy JNull = False"
| "truthy (JBool b) = b"
| "truthy (JInt i) = (i \<noteq> 0)"
| "truthy (JFloat x) = (x \<noteq> 0)"
| "truthy (JStr s) = (s \<noteq> [])"
| "truthy (JList xs) = (xs \<noteq> [])"
| "truthy (JObj kvs) = (kvs \<noteq> [])"

text \<open>\<open>a or b\<close>.\<close>

definition or_else :: "json \<Rightarrow> json \<Rightarrow> json" where
  "or_else a b = (if truthy a then a else b)"

text \<open>\<open>d.get(k)\<close>: only a dict has the method.\<close>

definition dict_get :: "json \<Rightarrow> string \<Rightarrow> error + json" where
  "dict_get d k =
     (case d of
        JObj kvs \<Rightarrow> Inr (case map_of kvs k of None \<Rightarrow> JNull | Some v \<Rightarrow> v)
      | _ \<Rightarrow> Inl AttributeError)"

text \<open>\<open>v.upper()\<close> and \<open>v.lower()\<close>: only a string has the methods.\<close>

definition str_upper :: "json \<Rightarrow> error + string" where
  "str_upper v = (case v of JStr s \<Rightarrow> Inr (upper s) | _ \<Rightarrow> Inl AttributeError)"

definition str_lower :: "json \<Rightarrow> error + string" where
  "str_lower v = (case v of JStr s \<Rightarrow> Inr (lower s) | _ \<Rightarrow> Inl AttributeError)"

text \<open>
  \<open>str(v)\<close>. The text of a float, a list or a dict is left to the parameter \<open>repr\<close>.
\<close>

definition py_str :: "(json \<Rightarrow> string) \<Rightarrow> json \<Rightarrow> string" where
  "py_str repr v =
     (case v of
        JStr s \<Rightarrow> s
      | JInt i \<Rightarrow> string_of_int i
      | JBool b \<Rightarrow> (if b then ''True'' else ''False'')
      | JNull \<Rightarrow> ''None''
      | _ \<Rightarrow> repr v)"

text \<open>
  The test of line 199 for one media entry and one size, with Python's evaluation from
  left to right: a later part is not evaluated once an earlier part is false.
\<close>

definition media_matches :: "json \<Rightarrow> string \<Rightarrow> error + bool" where
  "media_matches m sz =
     (case dict_get m ''contentType'' of
        Inl e \<Rightarrow> Inl e
      | Inr ct \<Rightarrow>
          (case str_upper (or_else ct (JStr [])) of
             Inl e \<Rightarrow> Inl e
           | Inr u \<Rightarrow>
               if u \<noteq> ''IMAGE'' then Inr False
               else (case dict_get m ''sizeType'' of
                       Inl e \<Rightarrow> Inl e
                     | Inr st \<Rightarrow>
                         (case str_upper (or_else st (JStr [])) of
                            Inl e \<Rightarrow> Inl e
                          | Inr v \<Rightarrow>
                              if v \<noteq> sz then Inr False
                              else (case dict_get m ''url'' of
                                      Inl e \<Rightarrow> Inl e
                                    | Inr url \<Rightarrow> Inr (truthy url))))))"

text \<open>The inner loop of lines 198 to 201: the first entry that matches the size.\<close>

fun first_media :: "(json \<Rightarrow> string) \<Rightarrow> string \<Rightarrow> json list \<Rightarrow> error + string option" where
  "first_media repr sz [] = Inr None"
| "first_media repr sz (m # ms) =
     (case media_matches m sz of
        Inl e \<Rightarrow> Inl e
      | Inr True \<Rightarrow>
          (case dict_get m ''url'' of
             Inl e \<Rightarrow> Inl e
           | Inr url \<Rightarrow> Inr (Some (normalize_ipfs (py_str repr url))))
      | Inr False \<Rightarrow> first_media repr sz ms)"

text \<open>
  The outer loop of lines 197 to 203: it stops after the first size that leaves a
  non-empty image.
\<close>

fun media_loop :: "(json \<Rightarrow> string) \<Rightarrow> string list \<Rightarrow> json list \<Rightarrow> string option \<Rightarrow> error + string option" where
  "media_loop repr [] ms img = Inr img"
| "media_loop repr (sz # sizes) ms img =
     (case first_media repr sz ms of
        Inl e \<Rightarrow> Inl e
      | Inr found \<Rightarrow>
          let img' = (case found of Some u \<Rightarrow> Some u | None \<Rightarrow> img)
          in if truthy_str img' then Inr img' else media_loop repr sizes ms img')"

definition preferred :: "string list" where
  "preferred = [''ORIGINAL'', ''BIG'', ''PREVIEW'']"

text \<open>The loops of lines 204 to 208 and 209 to 213: the first key that holds a string.\<close>

fun first_str_key :: "json \<Rightarrow> string list \<Rightarrow> error + string option" where
  "first_str_key d [] = Inr None"
| "first_str_key d (k # ks) =
     (case dict_get d k of
        Inl e \<Rightarrow> Inl e
      | Inr (JStr s) \<Rightarrow> Inr (Some s)
      | Inr _ \<Rightarrow> first_str_key d ks)"

text \<open>
  The loop of lines 216 to 221: the first attribute whose \<open>key\<close>, or else
  \<open>trait_type\<close>, is \<open>rarity\<close> in any case ends the loop, with its value if that is a
  string.
\<close>

fun rarity_attr :: "json list \<Rightarrow> error + string option" where
  "rarity_attr [] = Inr None"
| "rarity_attr (a # rest) =
     (case dict_get a ''key'' of
        Inl e \<Rightarrow> Inl e
      | Inr k \<Rightarrow>
          (case (if truthy k then Inr k
                 else (case dict_get a ''trait_type'' of
                         Inl e \<Rightarrow> Inl e
                       | Inr t \<Rightarrow> Inr (or_else t (JStr [])))) of
             Inl e \<Rightarrow> Inl e
           | Inr kv \<Rightarrow>
               (case str_lower kv of
                  Inl e \<Rightarrow> Inl e
                | Inr l \<Rightarrow>
                    if l = ''rarity''
                    then (case dict_get a ''value'' of
                            Inl e \<Rightarrow> Inl e
                          | Inr (JStr s) \<Rightarrow> Inr (Some s)
                          | Inr _ \<Rightarrow> Inr None)
                    else rarity_attr rest)))"

text \<open>The dict that \<open>extract_from_metadata\<close> returns.\<close>

record meta_extracted =
  meta_name :: "string option"
  meta_image_url :: "string option"
  meta_rarity :: "string option"

text \<open>The image found among the media entries, lines 194 to 203.\<close>

definition media_image :: "(json \<Rightarrow> string) \<Rightarrow> json \<Rightarrow> error + string option" where
  "media_image repr data =
     (case dict_get data ''mediaEntries'' of
        Inl e \<Rightarrow> Inl e
      | Inr me \<Rightarrow>
          (case or_else me (JList []) of
             JList ms \<Rightarrow> if ms \<noteq> [] then media_loop repr preferred ms None else Inr None
           | _ \<Rightarrow> Inr None))"

text \<open>
  \<open>extract_from_metadata\<close> from line 191 on; \<open>data\<close> is what \<open>fetch_metadata\<close>
  returned, the empty dict when the download failed.
\<close>

definition extract_from_metadata :: "(json \<Rightarrow> string) \<Rightarrow> json \<Rightarrow> error + meta_extracted" where
  "extract_from_metadata repr data =
     (case media_image repr data of
        Inl e \<Rightarrow> Inl e
      | Inr img0 \<Rightarrow>
          (case first_str_key data [''name'', ''title''] of
             Inl e \<Rightarrow> Inl e
           | Inr name \<Rightarrow>
               (case first_str_key data [''image'', ''image_url'', ''imageURI''] of
                  Inl e \<Rightarrow> Inl e
                | Inr flat \<Rightarrow>
                    let img = (case flat of Some v \<Rightarrow> Some (normalize_ipfs v) | None \<Rightarrow> img0)
                    in (case dict_get data ''attributes'' of
                          Inl e \<Rightarrow> Inl e
                        | Inr attrs0 \<Rightarrow>
                            (case (case or_else attrs0 (JList []) of
                                     JList attrs \<Rightarrow> rarity_attr attrs
                                   | _ \<Rightarrow> Inr None) of
                               Inl e \<Rightarrow> Inl e
                             | Inr rar \<Rightarrow>
                                 Inr \<lparr>meta_name = name, meta_image_url = img,
                                      meta_rarity = rar\<rparr>)))))"

text \<open>A metadata document with one media entry and the flat key \<open>image\<close>.\<close>

definition sample_metadata :: json where
  "sample_metadata =
     JObj [(''name'', JStr ''Wink 7''),
           (''mediaEntries'',
              JList [JObj [(''contentType'', JStr ''IMAGE''), (''sizeType'', JStr ''ORIGINAL''),
                           (''url'', JStr ''https://cdn.example/original.png'')]]),
           (''image'', JStr ''https://cdn.example/flat.png'')]"

section \<open>Properties of the decimal normalizer\<close>

lemmas py_int_eval =
  py_int_def strip_def strip_by_def lstrip_by_def rstrip_by_def is_space_def is_digit_def
  body_value_def digit_val_def int_max_str_digits_def Let_def

lemmas decimal_eval =
  safe_decimal_str_def string_of_int_def string_of_nat.simps digit_char_def rjust_def
  slice_to_neg_def slice_from_neg_def rstrip_chars_def

lemma safe_decimal_str_one:
  "safe_decimal_str (JStr ''1000000000000000000'') 18 = Some ''1''"
  by (simp add: py_int_eval decimal_eval)

lemma safe_decimal_str_one_and_a_half:
  "safe_decimal_str (JStr ''1500000000000000000'') 18 = Some ''1.5''"
  by (simp add: py_int_eval decimal_eval)

lemma safe_decimal_str_abc:
  "safe_decimal_str (JStr ''abc'') 18 = None"
  by (simp add: safe_decimal_str_def py_int_eval)

lemma safe_decimal_str_None_iff:
  "safe_decimal_str v d = None \<longleftrightarrow> int_of_str v = None"
  by (auto simp: safe_decimal_str_def Let_def split: option.splits)

lemma safe_decimal_str_no_decimals:
  "int_of_str v = Some raw \<Longrightarrow> d \<le> 0 \<Longrightarrow> safe_decimal_str v d = Some (string_of_int raw)"
  by (simp add: safe_decimal_str_def)

text \<open>Stripping and the sign take no digit away, so the limit is on the digits of the input.\<close>

lemma filter_dropWhile_disjoint:
  "(\<And>c. P c \<Longrightarrow> \<not> Q c) \<Longrightarrow> filter Q (dropWhile P s) = filter Q s"
  by (induction s) auto

lemma filter_digit_strip: "filter is_digit (strip s) = filter is_digit s"
proof -
  have d: "\<And>c. is_space c \<Longrightarrow> \<not> is_digit c"
    by (auto simp: is_space_def is_digit_def Let_def)
  have "filter is_digit (rev (dropWhile is_space (rev (dropWhile is_space s))))
        = rev (filter is_digit (dropWhile is_space (rev (dropWhile is_space s))))"
    by (simp add: rev_filter)
  also have "\<dots> = rev (filter is_digit (rev (dropWhile is_space s)))"
    using d by (simp add: filter_dropWhile_disjoint)
  also have "\<dots> = filter is_digit (dropWhile is_space s)"
    by (simp add: rev_filter)
  also have "\<dots> = filter is_digit s"
    using d by (simp add: filter_dropWhile_disjoint)
  finally show ?thesis
    by (simp add: strip_def strip_by_def lstrip_by_def rstrip_by_def)
qed

lemma py_int_over_limit:
  assumes "int_max_str_digits < length (filter is_digit s)"
  shows "py_int s = None"
proof -
  have sign: "\<not> is_digit CHR ''-''" "\<not> is_digit CHR ''+''"
    by (simp_all add: is_digit_def)
  have "filter is_digit (case strip s of [] \<Rightarrow> strip s
          | c # r \<Rightarrow> if c = CHR ''-'' \<or> c = CHR ''+'' then r else strip s)
        = filter is_digit (strip s)"
    using sign by (cases "strip s") auto
  then show ?thesis
    using assms by (simp add: py_int_def Let_def filter_digit_strip)
qed

text \<open>
  The padded text of a number falls into the text of its quotient by \<open>10 ^ d\<close> and its
  last \<open>d\<close> digits.
\<close>

lemma length_last_digits [simp]: "length (last_digits d n) = d"
  by (induction d arbitrary: n) auto

lemma string_of_nat_nonempty [simp]: "string_of_nat n \<noteq> []"
  by (subst string_of_nat.simps) simp

lemma length_string_of_nat_pos: "0 < length (string_of_nat n)"
  by simp

lemma rjust_step:
  "0 < k \<Longrightarrow> rjust (string_of_nat n) (Suc k) CHR ''0''
     = rjust (string_of_nat (n div 10)) k CHR ''0'' @ [digit_char (n mod 10)]"
proof (cases "n < 10")
  case True
  assume k: "0 < k"
  have a: "string_of_nat n = [digit_char n]" using True by (subst string_of_nat.simps) simp
  have b: "string_of_nat 0 = ''0''"
    by (subst string_of_nat.simps) (simp add: digit_char_def)
  obtain j where j: "k = Suc j" using k by (cases k) auto
  show ?thesis using True by (simp add: a b rjust_def j replicate_append_same)
next
  case False
  then have a: "string_of_nat n = string_of_nat (n div 10) @ [digit_char (n mod 10)]"
    by (subst string_of_nat.simps) simp
  show ?thesis by (simp add: a rjust_def)
qed

lemma rjust_one: "rjust (string_of_nat n) (Suc 0) CHR ''0'' = string_of_nat n"
  using string_of_nat_nonempty[of n] by (cases "string_of_nat n") (simp_all add: rjust_def)

lemma rjust_split:
  "rjust (string_of_nat n) (Suc d) CHR ''0'' = string_of_nat (n div 10 ^ d) @ last_digits d n"
proof (induction d arbitrary: n)
  case 0
  show ?case by (simp add: rjust_one)
next
  case (Suc d)
  have "rjust (string_of_nat n) (Suc (Suc d)) CHR ''0''
        = rjust (string_of_nat (n div 10)) (Suc d) CHR ''0'' @ [digit_char (n mod 10)]"
    by (rule rjust_step) simp
  also have "\<dots> = string_of_nat (n div 10 div 10 ^ d) @ last_digits d (n div 10) @ [digit_char (n mod 10)]"
    by (simp add: Suc.IH)
  finally show ?case by (simp add: div_mult2_eq)
qed

lemma safe_decimal_str_split:
  assumes "int_of_str v = Some (int n)" and "0 < d"
  shows "safe_decimal_str v (int d) =
     Some (if rstrip_chars ''0'' (last_digits d n) = [] then string_of_nat (n div 10 ^ d)
           else string_of_nat (n div 10 ^ d) @ ''.'' @ rstrip_chars ''0'' (last_digits d n))"
proof -
  have s: "rjust (string_of_int (int n)) (Suc d) CHR ''0'' = string_of_nat (n div 10 ^ d) @ last_digits d n"
    using rjust_split[of n d] by (simp add: string_of_int_def)
  show ?thesis
    using assms by (simp add: safe_decimal_str_def Let_def s slice_to_neg_def slice_from_neg_def)
qed

lemma last_digits_numeral:
  "last_digits (numeral k) n = last_digits (pred_numeral k) (n div 10) @ [digit_char (n mod 10)]"
  by (subst numeral_eq_Suc) (simp only: last_digits.simps)

lemma replicate_numeral_unfold:
  "replicate (numeral k) x = x # replicate (pred_numeral k) x"
  by (subst numeral_eq_Suc) (simp only: replicate.simps)




text \<open>
  An integer that \<open>int\<close> returned is within the limit, so \<open>str\<close> gives its text back.
\<close>

lemma foldl_digits_bound:
  "\<forall>c \<in> set ds. is_digit c \<Longrightarrow>
   foldl (\<lambda>acc c. 10 * acc + digit_val c) a ds < (a + 1) * 10 ^ length ds"
proof (induction ds arbitrary: a)
  case Nil
  show ?case by simp
next
  case (Cons c ds)
  have "digit_val c \<le> 9"
    using Cons.prems by (auto simp: is_digit_def digit_val_def Let_def)
  then have "10 * a + digit_val c + 1 \<le> 10 * (a + 1)"
    by simp
  then have le: "(10 * a + digit_val c + 1) * 10 ^ length ds \<le> (10 * (a + 1)) * 10 ^ length ds"
    by (rule mult_right_mono) simp
  have "foldl (\<lambda>acc c. 10 * acc + digit_val c) (10 * a + digit_val c) ds
        < (10 * a + digit_val c + 1) * 10 ^ length ds"
    using Cons.prems by (intro Cons.IH) simp
  then have "foldl (\<lambda>acc c. 10 * acc + digit_val c) (10 * a + digit_val c) ds
        < (10 * (a + 1)) * 10 ^ length ds"
    using le by (rule less_le_trans)
  then show ?case by (simp add: algebra_simps)
qed

lemma body_value_bound: "body_value s < 10 ^ length (filter is_digit s)"
  using foldl_digits_bound[of "filter is_digit s" 0] by (simp add: body_value_def)

lemma int_of_str_within_limit:
  assumes "int_of_str v = Some raw"
  shows "\<bar>raw\<bar> < 10 ^ int_max_str_digits"
proof (cases v)
  case (JStr s)
  define body where "body = (case strip s of [] \<Rightarrow> strip s
          | c # r \<Rightarrow> if c = CHR ''-'' \<or> c = CHR ''+'' then r else strip s)"
  have l: "length (filter is_digit body) \<le> int_max_str_digits"
    and r: "\<bar>raw\<bar> = int (body_value body)"
    using assms JStr by (auto simp: py_int_def Let_def body_def split: if_splits)
  have "body_value body < 10 ^ length (filter is_digit body)"
    by (rule body_value_bound)
  also have "\<dots> \<le> 10 ^ int_max_str_digits"
    using l by (simp add: power_increasing)
  finally have "int (body_value body) < 10 ^ int_max_str_digits"
    by (metis of_nat_less_iff of_nat_numeral of_nat_power)
  then show ?thesis using r by simp
qed (use assms in \<open>auto split: if_splits\<close>)

section \<open>Properties of the URI normalizer\<close>

lemma clean_ends_alt: "clean_ends P s \<longleftrightarrow> (s = [] \<or> (\<not> P (hd s) \<and> \<not> P (last s)))"
  by (cases s) (auto simp: clean_ends_def)

lemma last_dropWhile: "dropWhile P xs \<noteq> [] \<Longrightarrow> last (dropWhile P xs) = last xs"
  by (induction xs) (auto split: if_splits)

lemma rstrip_by_Nil [simp]: "rstrip_by P [] = []"
  by (simp add: rstrip_by_def)

lemma rstrip_by_length: "length (rstrip_by P s) \<le> length s"
  using length_dropWhile_le[of P "rev s"] by (simp add: rstrip_by_def)

lemma rstrip_by_hd: "s \<noteq> [] \<Longrightarrow> \<not> P (hd s) \<Longrightarrow> rstrip_by P s \<noteq> [] \<and> hd (rstrip_by P s) = hd s \<and> \<not> P (last (rstrip_by P s))"
proof -
  assume ne: "s \<noteq> []" and h: "\<not> P (hd s)"
  let ?d = "dropWhile P (rev s)"
  have "hd s \<in> set (rev s)" using ne by simp
  then have dne: "?d \<noteq> []" using h by (auto simp: dropWhile_eq_Nil_conv)
  have "last ?d = last (rev s)" using dne by (rule last_dropWhile)
  then have 1: "hd (rev ?d) = hd s" using dne ne by (simp add: hd_rev last_rev)
  have 2: "\<not> P (hd ?d)" using dne by (rule hd_dropWhile)
  show ?thesis using dne 1 2 by (simp add: rstrip_by_def last_rev)
qed

lemma strip_by_clean: "clean_ends P (strip_by P s)"
proof (cases "dropWhile P s = []")
  case True
  show ?thesis unfolding strip_by_def lstrip_by_def True by (simp add: clean_ends_def)
next
  case False
  then have "\<not> P (hd (dropWhile P s))" by (rule hd_dropWhile)
  with False show ?thesis
    using rstrip_by_hd[of "dropWhile P s" P]
    by (simp add: strip_by_def lstrip_by_def clean_ends_alt)
qed

lemma strip_by_id: "clean_ends P s \<Longrightarrow> strip_by P s = s"
  by (cases s) (auto simp: strip_by_def lstrip_by_def rstrip_by_def clean_ends_def dropWhile_eq_self_iff hd_rev split: if_splits)

lemma strip_by_length: "length (strip_by P s) \<le> length s"
  using rstrip_by_length[of P "dropWhile P s"] length_dropWhile_le[of P s]
  by (simp add: strip_by_def lstrip_by_def)

lemma dropWhile_shorter: "xs \<noteq> [] \<Longrightarrow> P (hd xs) \<Longrightarrow> length (dropWhile P xs) < length xs"
  by (cases xs) (auto simp: less_Suc_eq_le length_dropWhile_le)

lemma strip_by_shorter: "\<not> clean_ends P s \<Longrightarrow> length (strip_by P s) < length s"
proof -
  assume "\<not> clean_ends P s"
  then have ne: "s \<noteq> []" and d: "P (hd s) \<or> P (last s)" by (auto simp: clean_ends_alt)
  show ?thesis
  proof (cases "P (hd s)")
    case True
    have "length (strip_by P s) \<le> length (dropWhile P s)"
      by (simp add: strip_by_def lstrip_by_def rstrip_by_length)
    then show ?thesis using dropWhile_shorter[of s P] ne True by simp
  next
    case False
    then have l: "P (last s)" using d by simp
    have eq: "dropWhile P s = s" using False ne by (cases s) auto
    have "length (dropWhile P (rev s)) < length (rev s)"
      using ne l by (intro dropWhile_shorter) (simp_all add: hd_rev)
    then show ?thesis by (simp add: strip_by_def lstrip_by_def rstrip_by_def eq)
  qed
qed

lemma strip_by_hd: "s \<noteq> [] \<Longrightarrow> \<not> P (hd s) \<Longrightarrow> strip_by P s \<noteq> [] \<and> hd (strip_by P s) = hd s"
proof -
  assume ne: "s \<noteq> []" and h: "\<not> P (hd s)"
  have eq: "dropWhile P s = s" using h ne by (cases s) auto
  show ?thesis using rstrip_by_hd[of s P] ne h by (simp add: strip_by_def lstrip_by_def eq)
qed



lemma backtick_at_end_clean: "backtick_at_end s \<longleftrightarrow> \<not> clean_ends (\<lambda>c. c \<in> set ''`'') s"
  by (cases s) (auto simp: backtick_at_end_def clean_ends_def)

lemma normalize_clean_space: "clean_ends is_space (normalize_ipfs x)"
proof -
  let ?s = "strip (strip_chars ''`'' (strip x))"
  have cs: "clean_ends is_space ?s" unfolding strip_def by (rule strip_by_clean)
  show ?thesis
  proof (cases "startswith ?s ''ipfs://''")
    case False
    then show ?thesis using cs by (simp add: normalize_ipfs_def)
  next
    case True
    then obtain r where s: "?s = ''ipfs://'' @ r"
      by (metis append_take_drop_id startswith_def)
    have "r \<noteq> [] \<Longrightarrow> \<not> is_space (last r)" using cs unfolding s by (simp add: clean_ends_def)
    then have "clean_ends is_space (''https://ipfs.io/ipfs/'' @ r)"
      by (simp add: clean_ends_def is_space_def)
    then show ?thesis using True unfolding normalize_ipfs_def Let_def removeprefix_def s by (simp add: startswith_def)
  qed
qed

lemma normalize_fix:
  assumes "clean_ends is_space r" "clean_ends (\<lambda>c. c \<in> set ''`'') r" "\<not> startswith r ''ipfs://''"
  shows "normalize_ipfs r = r"
  using assms by (simp add: normalize_ipfs_def strip_def strip_chars_def strip_by_id)

lemma normalize_not_ipfs: "startswith (strip (strip_chars ''`'' (strip x))) ''ipfs://'' \<Longrightarrow> \<not> startswith (normalize_ipfs x) ''ipfs://''"
  by (simp add: normalize_ipfs_def startswith_def)

lemma normalize_length:
  "\<not> startswith (strip (strip_chars ''`'' (strip x))) ''ipfs://'' \<Longrightarrow> length (normalize_ipfs x) \<le> length (strip_chars ''`'' (strip x))"
  by (simp add: normalize_ipfs_def strip_def strip_by_length)

lemma normalize_hd_ipfs:
  "startswith (strip (strip_chars ''`'' (strip x))) ''ipfs://'' \<Longrightarrow> normalize_ipfs x \<noteq> [] \<and> hd (normalize_ipfs x) = CHR ''h''"
  by (simp add: normalize_ipfs_def)

text \<open>
  Claim C8, as stated: for every string \<open>x\<close>, normalizing twice gives the same as
  normalizing once. It fails where a backtick survives the three trimming passes: the
  first pass removes no whitespace from \<open>a` `\<close>, the second removes the last
  backtick, the third the blank, and the backtick that is left goes only on the next
  call.
\<close>

theorem normalize_ipfs_not_idempotent:
  "normalize_ipfs (normalize_ipfs ''a` `'') \<noteq> normalize_ipfs ''a` `''"
  by (simp add: normalize_ipfs_def strip_def strip_chars_def strip_by_def lstrip_by_def
      rstrip_by_def is_space_def startswith_def)

text \<open>
  Claim C8, amended: normalizing twice gives the same as normalizing once exactly for
  the inputs whose normalized form neither begins nor ends with a backtick.
\<close>

theorem normalize_ipfs_idempotent_iff:
  "normalize_ipfs (normalize_ipfs x) = normalize_ipfs x \<longleftrightarrow> \<not> backtick_at_end (normalize_ipfs x)"
proof -
  let ?r = "normalize_ipfs x"
  let ?B = "\<lambda>c. c \<in> set ''`''"
  have sp: "clean_ends is_space ?r" by (rule normalize_clean_space)
  have nip: "\<not> startswith ?r ''ipfs://''"
  proof (cases "startswith (strip (strip_chars ''`'' (strip x))) ''ipfs://''")
    case True then show ?thesis by (rule normalize_not_ipfs)
  next
    case False then show ?thesis by (simp add: normalize_ipfs_def)
  qed
  show ?thesis
  proof (cases "clean_ends ?B ?r")
    case True
    then show ?thesis using normalize_fix[OF sp True nip] by (simp add: backtick_at_end_clean)
  next
    case False
    then have ne: "?r \<noteq> []" by (auto simp: clean_ends_def)
    have st: "strip ?r = ?r" using sp by (simp add: strip_def strip_by_id)
    let ?u = "strip_chars ''`'' ?r"
    have lu: "length ?u < length ?r" using False by (simp add: strip_chars_def strip_by_shorter)
    have "normalize_ipfs ?r \<noteq> ?r"
    proof (cases "startswith (strip ?u) ''ipfs://''")
      case nf: False
      have "length (normalize_ipfs ?r) \<le> length ?u"
        using normalize_length[of ?r] nf by (simp add: st)
      then show ?thesis using lu by auto
    next
      case tr: True
      have h: "hd (normalize_ipfs ?r) = CHR ''h''" using normalize_hd_ipfs[of ?r] tr by (simp add: st)
      show ?thesis
      proof (cases "hd ?r = CHR 0x60")
        case True
        then show ?thesis using h by auto
      next
        case nb: False
        have nsp: "\<not> is_space (hd ?r)" using sp ne by (simp add: clean_ends_alt)
        have 1: "?u \<noteq> [] \<and> hd ?u = hd ?r" using strip_by_hd[of ?r ?B] ne nb by (simp add: strip_chars_def)
        then have 2: "hd (strip ?u) = hd ?r" using strip_by_hd[of ?u is_space] nsp by (simp add: strip_def)
        have "hd (strip ?u) = CHR ''i''" using tr by (cases "strip ?u") (auto simp: startswith_def)
        then show ?thesis using 2 h by auto
      qed
    qed
    then show ?thesis using False by (simp add: backtick_at_end_clean)
  qed
qed

theorem normalize_ipfs_idempotent_iff_witness:
  "\<not> backtick_at_end (normalize_ipfs '' `ipfs://QmHash/1.png` '')
   \<and> normalize_ipfs '' `ipfs://QmHash/1.png` '' = ''https://ipfs.io/ipfs/QmHash/1.png''
   \<and> normalize_ipfs (normalize_ipfs '' `ipfs://QmHash/1.png` '') = normalize_ipfs '' `ipfs://QmHash/1.png` ''"
proof -
  have n: "normalize_ipfs '' `ipfs://QmHash/1.png` '' = ''https://ipfs.io/ipfs/QmHash/1.png''"
    by (simp add: normalize_ipfs_def strip_def strip_chars_def strip_by_def lstrip_by_def
        rstrip_by_def is_space_def startswith_def removeprefix_def)
  have b: "\<not> backtick_at_end (normalize_ipfs '' `ipfs://QmHash/1.png` '')"
    unfolding n by (simp add: backtick_at_end_def)
  from b normalize_ipfs_idempotent_iff [of "'' `ipfs://QmHash/1.png` ''"] n show ?thesis
    by simp
qed

section \<open>Properties of the floor and alert engine\<close>

lemmas sample_defs = sample_config_def sample_item_def sample_store_def empty_store_def
lemmas store_defs = get_floor_def set_floor_def get_notified_def set_notified_def get_threshold_def set_threshold_def
text \<open>
  Evaluation of the float operations. The numbers of the examples below that are
  integers or halves are floats: rounding returns them unchanged.
\<close>

lemmas binary64_eval = binary64_def scale_up.simps scale_down.simps round_half_even_def Let_def

lemma binary64_exact:
  "binary64 0 = 0" "binary64 (1 / 2) = 1 / 2" "binary64 1 = 1" "binary64 5 = 5" "binary64 6 = 6"
  "binary64 10 = 10" "binary64 11 = 11" "binary64 12 = 12" "binary64 13 = 13" "binary64 14 = 14"
  "binary64 15 = 15" "binary64 39 = 39" "binary64 40 = 40" "binary64 45 = 45" "binary64 50 = 50"
  "binary64 100 = 100"
  by (simp_all add: binary64_eval)

lemmas float_eval = round2_def float_mul_def float_sub_def float_div_def round_half_even_def
  binary64_exact

lemmas engine_defs = process_result_def alert_rule_def init_rule_def refresh_rule_def alert_condition_def
  stored_floor_def stored_threshold_def last_notified_price_def should_notify_def notify_gate_def truthy_str_def

lemma init_rule_events: "set (snd (init_rule tick r ts c)) \<subseteq> {FloorInit}"
  by (auto simp: init_rule_def split: option.splits)

lemma refresh_rule_events: "set (snd (refresh_rule tick r ts c)) \<subseteq> {FloorUpdated}"
  by (auto simp: refresh_rule_def split: option.splits)

lemma process_result_events:
  "e \<in> {Compare, Trigger, Sending, Sent, FloorImmediate, SendFailed} \<Longrightarrow>
   e \<in> set (snd (process_result cfg tick r dlv ts conn)) \<longleftrightarrow> e \<in> set (snd (alert_rule cfg r dlv ts conn))"
  using init_rule_events[of tick r ts "fst (alert_rule cfg r dlv ts conn)"]
        refresh_rule_events[of tick r ts "fst (init_rule tick r ts (fst (alert_rule cfg r dlv ts conn)))"]
  by (auto simp: process_result_def split: prod.splits)

lemma set_floor_notifications [simp]: "notifications (set_floor c rar p ts) = notifications c"
  by (simp add: set_floor_def)

lemma get_floor_set_floor [simp]: "get_floor (set_floor c rar p ts) rar = Some (round2 p)"
  by (simp add: get_floor_def set_floor_def split: option.splits)

lemma get_floor_set_notified [simp]: "get_floor (set_notified c i p ts) rar = get_floor c rar"
  by (simp add: get_floor_def set_notified_def)

lemma get_notified_set_notified [simp]: "get_notified (set_notified c i p ts) i = Some (round2 p)"
  by (simp add: get_notified_def set_notified_def)

lemma get_notified_set_floor [simp]: "get_notified (set_floor c rar p ts) i = get_notified c i"
  by (simp add: get_notified_def)

lemma init_rule_notifications [simp]: "notifications (fst (init_rule tick r ts c)) = notifications c"
  by (simp add: init_rule_def split: option.splits)

lemma refresh_rule_notifications [simp]: "notifications (fst (refresh_rule tick r ts c)) = notifications c"
  by (simp add: refresh_rule_def split: option.splits)

lemma process_result_notifications:
  "notifications (fst (process_result cfg tick r dlv ts conn)) = notifications (fst (alert_rule cfg r dlv ts conn))"
  by (simp add: process_result_def split: prod.splits)
     (metis fst_conv init_rule_notifications refresh_rule_notifications)

lemma process_result_get_notified:
  "get_notified (fst (process_result cfg tick r dlv ts conn)) i = get_notified (fst (alert_rule cfg r dlv ts conn)) i"
  by (simp add: get_notified_def process_result_notifications)

text \<open>What the alert rule does, case by case.\<close>

lemma alert_rule_silent:
  "\<not> alert_condition (price_usd r) (stored_floor conn r) (stored_threshold conn r) \<Longrightarrow>
   fst (alert_rule cfg r dlv ts conn) = conn \<and> set (snd (alert_rule cfg r dlv ts conn)) \<subseteq> {Compare}"
  by (auto simp: alert_rule_def alert_condition_def split: option.splits)

lemma alert_rule_held_back:
  assumes "alert_condition (price_usd r) (stored_floor conn r) (stored_threshold conn r)"
    and "price_usd r = Some p"
    and "\<not> (should_notify (last_notified_price conn r) p \<and> notify_gate cfg r)"
  shows "alert_rule cfg r dlv ts conn = (conn, [Compare, Trigger])"
  using assms by (auto simp: alert_rule_def alert_condition_def split: option.splits)

lemma alert_rule_raised:
  assumes "alert_condition (price_usd r) (stored_floor conn r) (stored_threshold conn r)"
    and "price_usd r = Some p"
    and "should_notify (last_notified_price conn r) p" and "notify_gate cfg r"
  shows "alert_rule cfg r Raised ts conn = (conn, [Compare, Trigger, Sending, SendFailed])"
  using assms by (auto simp: alert_rule_def alert_condition_def split: option.splits)

lemma alert_rule_delivered:
  assumes "alert_condition (price_usd r) (stored_floor conn r) (stored_threshold conn r)"
    and "price_usd r = Some p"
    and "should_notify (last_notified_price conn r) p" and "notify_gate cfg r"
  shows "\<exists>rar. rarity r = Some rar \<and>
     alert_rule cfg r Delivered ts conn =
       ((case item_id r of JStr i \<Rightarrow> set_notified (set_floor conn rar p ts) i p ts
                          | _ \<Rightarrow> set_floor conn rar p ts),
        [Compare, Trigger, Sending, Sent, FloorImmediate])"
  using assms
  by (cases "rarity r") (auto simp: alert_rule_def alert_condition_def stored_floor_def Let_def split: option.splits json.splits)

lemma alert_rule_trigger:
  "Trigger \<in> set (snd (alert_rule cfg r dlv ts conn)) \<longleftrightarrow>
   alert_condition (price_usd r) (stored_floor conn r) (stored_threshold conn r)"
  by (auto simp: alert_rule_def alert_condition_def Let_def split: option.splits delivery.splits)

lemma alert_rule_sending:
  "Sending \<in> set (snd (alert_rule cfg r dlv ts conn)) \<longleftrightarrow>
   alert_condition (price_usd r) (stored_floor conn r) (stored_threshold conn r)
   \<and> (\<exists>p. price_usd r = Some p \<and> should_notify (last_notified_price conn r) p) \<and> notify_gate cfg r"
  by (auto simp: alert_rule_def alert_condition_def Let_def split: option.splits delivery.splits)

lemma alert_rule_sent:
  "Sent \<in> set (snd (alert_rule cfg r dlv ts conn)) \<longleftrightarrow>
   alert_condition (price_usd r) (stored_floor conn r) (stored_threshold conn r)
   \<and> (\<exists>p. price_usd r = Some p \<and> should_notify (last_notified_price conn r) p) \<and> notify_gate cfg r
   \<and> dlv = Delivered"
  by (auto simp: alert_rule_def alert_condition_def Let_def split: option.splits delivery.splits)

lemma alert_rule_not_sent:
  "Sent \<notin> set (snd (alert_rule cfg r dlv ts conn)) \<Longrightarrow> fst (alert_rule cfg r dlv ts conn) = conn"
  by (auto simp: alert_rule_def alert_condition_def Let_def split: option.splits delivery.splits if_splits)

lemma init_rule_floor:
  "price_usd r = Some p \<Longrightarrow> rarity r = Some rar \<Longrightarrow>
   init_rule tick r ts c = (if tick = 1 then (set_floor c rar p ts, [FloorInit]) else (c, []))"
  by (simp add: init_rule_def)

lemma refresh_rule_floor:
  "price_usd r = Some p \<Longrightarrow> rarity r = Some rar \<Longrightarrow>
   refresh_rule tick r ts c = (if tick mod 3 = 0 then (set_floor c rar p ts, [FloorUpdated]) else (c, []))"
  by (simp add: refresh_rule_def)

lemma process_result_unfold:
  "process_result cfg tick r dlv ts conn =
     (fst (refresh_rule tick r ts (fst (init_rule tick r ts (fst (alert_rule cfg r dlv ts conn))))),
      snd (alert_rule cfg r dlv ts conn)
      @ snd (init_rule tick r ts (fst (alert_rule cfg r dlv ts conn)))
      @ snd (refresh_rule tick r ts (fst (init_rule tick r ts (fst (alert_rule cfg r dlv ts conn))))))"
  by (simp add: process_result_def split: prod.splits)

text \<open>
  Claim C1: processing one record logs the trigger exactly when the converted price and
  the stored floor of the record's rarity are both present and
  \<open>round(price, 2) \<le> round(floor * (1 - threshold / 100), 2)\<close>, each operation being
  that of the floats; when either is absent the alert rule does nothing: it logs
  nothing and leaves the store as it is.
\<close>

theorem alert_fires_iff:
  "(Trigger \<in> set (snd (process_result cfg tick r dlv ts conn)) \<longleftrightarrow>
      (\<exists>p f. price_usd r = Some p \<and> stored_floor conn r = Some f
             \<and> round2 p \<le> round2 (float_mul f (float_sub 1 (float_div (stored_threshold conn r) 100)))))
   \<and> (price_usd r = None \<or> stored_floor conn r = None \<longrightarrow>
        alert_rule cfg r dlv ts conn = (conn, []))"
proof -
  have "Trigger \<in> set (snd (process_result cfg tick r dlv ts conn)) \<longleftrightarrow>
        alert_condition (price_usd r) (stored_floor conn r) (stored_threshold conn r)"
    using process_result_events[of Trigger] alert_rule_trigger by simp
  moreover have "alert_condition (price_usd r) (stored_floor conn r) (stored_threshold conn r) \<longleftrightarrow>
      (\<exists>p f. price_usd r = Some p \<and> stored_floor conn r = Some f
             \<and> round2 p \<le> round2 (float_mul f (float_sub 1 (float_div (stored_threshold conn r) 100))))"
    by (auto simp: alert_condition_def split: option.splits)
  moreover have "price_usd r = None \<or> stored_floor conn r = None \<longrightarrow>
        alert_rule cfg r dlv ts conn = (conn, [])"
    by (auto simp: alert_rule_def split: option.splits)
  ultimately show ?thesis by simp
qed

text \<open>
  With a floor of 100 and a threshold of 50 the price 50.00 fires and the price 50.01
  does not. On the boundary the rounding of the floats decides: with a floor of 0.25
  and a threshold of 10 the product is the float above 0.225 and the price 0.23 fires;
  with a floor of 10.03 and a threshold of 50 the product is the float below 5.015
  and the price 5.02 does not fire; with a floor of 0.05 and a threshold of 50 the
  product is the float above 0.025 and the price 0.03 fires.
\<close>

theorem alert_fires_iff_witness:
  "Trigger \<in> set (snd (process_result sample_config 2 (sample_item (JStr ''item-1'') (Some ''u'') 50)
       Delivered ''t1'' (sample_store 100 (Some 50) None)))
   \<and> Trigger \<notin> set (snd (process_result sample_config 2
       (sample_item (JStr ''item-1'') (Some ''u'') (binary64 50.01))
       Delivered ''t1'' (sample_store 100 (Some 50) None)))
   \<and> Trigger \<in> set (snd (process_result sample_config 2
       (sample_item (JStr ''item-1'') (Some ''u'') (binary64 0.23))
       Delivered ''t1'' (sample_store 0.25 (Some 10) None)))
   \<and> Trigger \<notin> set (snd (process_result sample_config 2
       (sample_item (JStr ''item-1'') (Some ''u'') (binary64 5.02))
       Delivered ''t1'' (sample_store (binary64 10.03) (Some 50) None)))
   \<and> Trigger \<in> set (snd (process_result sample_config 2
       (sample_item (JStr ''item-1'') (Some ''u'') (binary64 0.03))
       Delivered ''t1'' (sample_store (binary64 0.05) (Some 50) None)))
   \<and> stored_floor empty_store (sample_item (JStr ''item-1'') (Some ''u'') 50) = None
   \<and> alert_rule sample_config (sample_item (JStr ''item-1'') (Some ''u'') 50) Delivered ''t1'' empty_store
       = (empty_store, [])"
proof -
  have i: "\<And>p. price_usd (sample_item (JStr ''item-1'') (Some ''u'') p) = Some p"
    by (simp add: sample_defs)
  have f: "\<And>p q t. stored_floor (sample_store q (Some t) None) (sample_item (JStr ''item-1'') (Some ''u'') p)
      = Some q"
    by (simp add: sample_defs stored_floor_def get_floor_def)
  have t: "\<And>p q t. stored_threshold (sample_store q (Some t) None)
      (sample_item (JStr ''item-1'') (Some ''u'') p) = t"
    by (simp add: sample_defs stored_threshold_def get_threshold_def)
  have e: "stored_floor empty_store (sample_item (JStr ''item-1'') (Some ''u'') 50) = None"
    by (simp add: sample_defs stored_floor_def get_floor_def)
  have a: "round2 50 \<le> round2 (float_mul 100 (float_sub 1 (float_div 50 100)))"
    by (simp add: float_eval)
  have b: "\<not> round2 (binary64 50.01) \<le> round2 (float_mul 100 (float_sub 1 (float_div 50 100)))"
    by (simp add: float_eval binary64_eval)
  have c: "round2 (binary64 0.23) \<le> round2 (float_mul 0.25 (float_sub 1 (float_div 10 100)))"
    by (simp add: float_eval binary64_eval)
  have d: "\<not> round2 (binary64 5.02)
      \<le> round2 (float_mul (binary64 10.03) (float_sub 1 (float_div 50 100)))"
    by (simp add: float_eval binary64_eval)
  have g: "round2 (binary64 0.03) \<le> round2 (float_mul (binary64 0.05) (float_sub 1 (float_div 50 100)))"
    by (simp add: float_eval binary64_eval)
  from alert_fires_iff [of sample_config 2 "sample_item (JStr ''item-1'') (Some ''u'') 50"
      Delivered "''t1''" "sample_store 100 (Some 50) None"]
    alert_fires_iff [of sample_config 2 "sample_item (JStr ''item-1'') (Some ''u'') (binary64 50.01)"
      Delivered "''t1''" "sample_store 100 (Some 50) None"]
    alert_fires_iff [of sample_config 2 "sample_item (JStr ''item-1'') (Some ''u'') (binary64 0.23)"
      Delivered "''t1''" "sample_store 0.25 (Some 10) None"]
    alert_fires_iff [of sample_config 2 "sample_item (JStr ''item-1'') (Some ''u'') (binary64 5.02)"
      Delivered "''t1''" "sample_store (binary64 10.03) (Some 50) None"]
    alert_fires_iff [of sample_config 2 "sample_item (JStr ''item-1'') (Some ''u'') (binary64 0.03)"
      Delivered "''t1''" "sample_store (binary64 0.05) (Some 50) None"]
    alert_fires_iff [of sample_config 2 "sample_item (JStr ''item-1'') (Some ''u'') 50"
      Delivered "''t1''" empty_store]
    a b c d g
  show ?thesis by (simp only: i f t e option.inject simp_thms ex_simps)
qed

text \<open>
  Claim C2: let the alert condition hold for an item with a string id that has a stored
  notification record. If the stored price is at most the new price, no delivery is
  tried and the alert rule leaves the store as it is. If an alert is delivered, the new
  price is strictly below the stored one and the record then holds the new price,
  rounded to two decimals as \<open>set_notified\<close> stores it. With a bot, a channel and an
  image, a strictly lower price is delivered.
\<close>

theorem dedup_strictly_lower:
  assumes "item_id r = JStr i" and "notifications conn i = Some row"
    and "alert_condition (price_usd r) (stored_floor conn r) (stored_threshold conn r)"
    and "price_usd r = Some p"
  shows "(last_price row \<le> p \<longrightarrow>
            Sending \<notin> set (snd (process_result cfg tick r dlv ts conn))
            \<and> fst (alert_rule cfg r dlv ts conn) = conn
            \<and> notifications (fst (process_result cfg tick r dlv ts conn)) = notifications conn)
       \<and> (Sent \<in> set (snd (process_result cfg tick r dlv ts conn)) \<longrightarrow>
            p < last_price row
            \<and> get_notified (fst (process_result cfg tick r dlv ts conn)) i = Some (round2 p))
       \<and> (p < last_price row \<and> notify_gate cfg r \<and> dlv = Delivered \<longrightarrow>
            Sent \<in> set (snd (process_result cfg tick r dlv ts conn)))"
proof -
  have lnp: "last_notified_price conn r = Some (last_price row)"
    using assms(1,2) by (simp add: last_notified_price_def get_notified_def)
  have sn: "should_notify (last_notified_price conn r) p \<longleftrightarrow> p < last_price row"
    by (simp add: lnp should_notify_def)
  have a: "last_price row \<le> p \<longrightarrow>
            Sending \<notin> set (snd (process_result cfg tick r dlv ts conn))
            \<and> fst (alert_rule cfg r dlv ts conn) = conn
            \<and> notifications (fst (process_result cfg tick r dlv ts conn)) = notifications conn"
  proof
    assume "last_price row \<le> p"
    then have "\<not> (should_notify (last_notified_price conn r) p \<and> notify_gate cfg r)"
      using sn by simp
    from alert_rule_held_back[OF assms(3,4) this]
    have "alert_rule cfg r dlv ts conn = (conn, [Compare, Trigger])" .
    then show "Sending \<notin> set (snd (process_result cfg tick r dlv ts conn))
            \<and> fst (alert_rule cfg r dlv ts conn) = conn
            \<and> notifications (fst (process_result cfg tick r dlv ts conn)) = notifications conn"
      using process_result_events[of Sending cfg tick r dlv ts conn]
      by (simp add: process_result_notifications)
  qed
  have b: "Sent \<in> set (snd (process_result cfg tick r dlv ts conn)) \<longrightarrow>
            p < last_price row
            \<and> get_notified (fst (process_result cfg tick r dlv ts conn)) i = Some (round2 p)"
  proof
    assume "Sent \<in> set (snd (process_result cfg tick r dlv ts conn))"
    then have s: "Sent \<in> set (snd (alert_rule cfg r dlv ts conn))"
      using process_result_events[of Sent cfg tick r dlv ts conn] by simp
    then have c: "should_notify (last_notified_price conn r) p" "notify_gate cfg r" "dlv = Delivered"
      using assms(4) by (auto simp: alert_rule_sent)
    from alert_rule_delivered[OF assms(3,4) c(1,2)] obtain rar where
      "alert_rule cfg r Delivered ts conn =
         (set_notified (set_floor conn rar p ts) i p ts, [Compare, Trigger, Sending, Sent, FloorImmediate])"
      using assms(1) by auto
    then show "p < last_price row
            \<and> get_notified (fst (process_result cfg tick r dlv ts conn)) i = Some (round2 p)"
      using c sn by (simp add: process_result_get_notified)
  qed
  have c: "p < last_price row \<and> notify_gate cfg r \<and> dlv = Delivered \<longrightarrow>
            Sent \<in> set (snd (process_result cfg tick r dlv ts conn))"
  proof
    assume h: "p < last_price row \<and> notify_gate cfg r \<and> dlv = Delivered"
    then have "Sent \<in> set (snd (alert_rule cfg r dlv ts conn))"
      using assms(3,4) sn by (simp add: alert_rule_sent)
    then show "Sent \<in> set (snd (process_result cfg tick r dlv ts conn))"
      using process_result_events[of Sent cfg tick r dlv ts conn] by simp
  qed
  from a b c show ?thesis by simp
qed

theorem dedup_strictly_lower_witness:
  "Sending \<notin> set (snd (process_result sample_config 2 (sample_item (JStr ''item-1'') (Some ''u'') 45)
       Delivered ''t1'' (sample_store 100 (Some 50) (Some 40))))
   \<and> notifications (fst (process_result sample_config 2 (sample_item (JStr ''item-1'') (Some ''u'') 45)
       Delivered ''t1'' (sample_store 100 (Some 50) (Some 40))))
       = notifications (sample_store 100 (Some 50) (Some 40))
   \<and> Sent \<in> set (snd (process_result sample_config 2 (sample_item (JStr ''item-1'') (Some ''u'') 39)
       Delivered ''t1'' (sample_store 100 (Some 50) (Some 40))))
   \<and> get_notified (fst (process_result sample_config 2 (sample_item (JStr ''item-1'') (Some ''u'') 39)
       Delivered ''t1'' (sample_store 100 (Some 50) (Some 40)))) ''item-1'' = Some 39"
proof -
  let ?row = "\<lparr>last_price = 40, last_at = ''t0''\<rparr>"
  let ?st = "sample_store 100 (Some 50) (Some 40)"
  have n: "notifications ?st ''item-1'' = Some ?row"
    by (simp add: sample_defs)
  have i: "\<And>p. item_id (sample_item (JStr ''item-1'') (Some ''u'') p) = JStr ''item-1''"
    "\<And>p. price_usd (sample_item (JStr ''item-1'') (Some ''u'') p) = Some p"
    by (simp_all add: sample_defs)
  have a45: "alert_condition (price_usd (sample_item (JStr ''item-1'') (Some ''u'') 45))
        (stored_floor ?st (sample_item (JStr ''item-1'') (Some ''u'') 45))
        (stored_threshold ?st (sample_item (JStr ''item-1'') (Some ''u'') 45))"
    by (simp add: sample_defs alert_condition_def stored_floor_def stored_threshold_def
        get_floor_def get_threshold_def float_eval)
  have a39: "alert_condition (price_usd (sample_item (JStr ''item-1'') (Some ''u'') 39))
        (stored_floor ?st (sample_item (JStr ''item-1'') (Some ''u'') 39))
        (stored_threshold ?st (sample_item (JStr ''item-1'') (Some ''u'') 39))"
    by (simp add: sample_defs alert_condition_def stored_floor_def stored_threshold_def
        get_floor_def get_threshold_def float_eval)
  have g: "notify_gate sample_config (sample_item (JStr ''item-1'') (Some ''u'') 39)"
    by (simp add: sample_defs notify_gate_def truthy_str_def)
  have r: "round2 39 = 39" by (simp add: float_eval)
  from dedup_strictly_lower [OF i(1) n a45 i(2), of sample_config 2 Delivered "''t1''"]
       dedup_strictly_lower [OF i(1) n a39 i(2), of sample_config 2 Delivered "''t1''"] g r
  show ?thesis by simp
qed

text \<open>
  Claim C3, as stated: every alert that fires and is not held back by the last notified
  price updates the floor and the notification record. It fails in two ways. The item
  below has no image, so line 611 skips the delivery and both writes: the floor stays
  100 and no record appears. With an image, a delivery that raises leaves the
  \<open>try\<close> block before the writes, with the same result.
\<close>

theorem alert_without_commit:
  "alert_condition (price_usd (sample_item (JStr ''item-1'') None 40))
      (stored_floor (sample_store 100 None None) (sample_item (JStr ''item-1'') None 40))
      (stored_threshold (sample_store 100 None None) (sample_item (JStr ''item-1'') None 40))
   \<and> should_notify (last_notified_price (sample_store 100 None None) (sample_item (JStr ''item-1'') None 40)) 40
   \<and> get_floor (fst (process_result sample_config 2 (sample_item (JStr ''item-1'') None 40) Delivered ''t''
        (sample_store 100 None None))) ''Rare'' = Some 100
   \<and> get_notified (fst (process_result sample_config 2 (sample_item (JStr ''item-1'') None 40) Delivered ''t''
        (sample_store 100 None None))) ''item-1'' = None
   \<and> snd (process_result sample_config 2 (sample_item (JStr ''item-1'') (Some ''u'') 40) Raised ''t''
        (sample_store 100 None None)) = [Compare, Trigger, Sending, SendFailed]
   \<and> get_floor (fst (process_result sample_config 2 (sample_item (JStr ''item-1'') (Some ''u'') 40) Raised ''t''
        (sample_store 100 None None))) ''Rare'' = Some 100
   \<and> get_notified (fst (process_result sample_config 2 (sample_item (JStr ''item-1'') (Some ''u'') 40) Raised ''t''
        (sample_store 100 None None))) ''item-1'' = None"
  by (simp add: sample_defs store_defs engine_defs float_eval)

text \<open>
  Claim C3, amended: when an alert fires and is not held back by the last notified
  price, and a bot, a channel and an image are there, and the delivery runs through,
  then the alert is sent, the floor of the rarity becomes the rounded new price, and
  for an item with a string id the notification record holds the rounded new price.
  When the bot, the channel or the image is missing, or the delivery raises, nothing is
  sent by this record and the alert rule writes nothing.
\<close>

theorem alert_commit_after_delivery:
  assumes "alert_condition (price_usd r) (stored_floor conn r) (stored_threshold conn r)"
    and "price_usd r = Some p"
    and "should_notify (last_notified_price conn r) p"
  shows "(notify_gate cfg r \<and> dlv = Delivered \<longrightarrow>
            Sent \<in> set (snd (process_result cfg tick r dlv ts conn))
            \<and> (\<exists>rar. rarity r = Some rar
                  \<and> get_floor (fst (process_result cfg tick r dlv ts conn)) rar = Some (round2 p))
            \<and> (\<forall>i. item_id r = JStr i \<longrightarrow>
                  get_notified (fst (process_result cfg tick r dlv ts conn)) i = Some (round2 p)))
       \<and> (\<not> notify_gate cfg r \<or> dlv = Raised \<longrightarrow>
            Sent \<notin> set (snd (process_result cfg tick r dlv ts conn))
            \<and> fst (alert_rule cfg r dlv ts conn) = conn
            \<and> notifications (fst (process_result cfg tick r dlv ts conn)) = notifications conn)"
proof -
  have a: "notify_gate cfg r \<and> dlv = Delivered \<longrightarrow>
            Sent \<in> set (snd (process_result cfg tick r dlv ts conn))
            \<and> (\<exists>rar. rarity r = Some rar
                  \<and> get_floor (fst (process_result cfg tick r dlv ts conn)) rar = Some (round2 p))
            \<and> (\<forall>i. item_id r = JStr i \<longrightarrow>
                  get_notified (fst (process_result cfg tick r dlv ts conn)) i = Some (round2 p))"
  proof
    assume h: "notify_gate cfg r \<and> dlv = Delivered"
    then have g: "notify_gate cfg r" and d: "dlv = Delivered" by simp_all
    from alert_rule_delivered[OF assms g, of ts] obtain rar where rar: "rarity r = Some rar"
      and ar: "alert_rule cfg r Delivered ts conn =
       ((case item_id r of JStr i \<Rightarrow> set_notified (set_floor conn rar p ts) i p ts
                          | _ \<Rightarrow> set_floor conn rar p ts),
        [Compare, Trigger, Sending, Sent, FloorImmediate])" by blast
    have s: "Sent \<in> set (snd (process_result cfg tick r dlv ts conn))"
      using process_result_events[of Sent cfg tick r dlv ts conn] ar d by simp
    have fa: "get_floor (fst (alert_rule cfg r Delivered ts conn)) rar = Some (round2 p)"
      by (cases "item_id r") (simp_all add: ar)
    have f: "get_floor (fst (process_result cfg tick r dlv ts conn)) rar = Some (round2 p)"
      using fa d
      by (simp add: process_result_unfold init_rule_floor[OF assms(2) rar] refresh_rule_floor[OF assms(2) rar])
    have n: "\<forall>i. item_id r = JStr i \<longrightarrow>
                  get_notified (fst (process_result cfg tick r dlv ts conn)) i = Some (round2 p)"
      using d by (simp add: process_result_get_notified ar)
    from s f n rar show "Sent \<in> set (snd (process_result cfg tick r dlv ts conn))
            \<and> (\<exists>rar. rarity r = Some rar
                  \<and> get_floor (fst (process_result cfg tick r dlv ts conn)) rar = Some (round2 p))
            \<and> (\<forall>i. item_id r = JStr i \<longrightarrow>
                  get_notified (fst (process_result cfg tick r dlv ts conn)) i = Some (round2 p))"
      by simp
  qed
  have b: "\<not> notify_gate cfg r \<or> dlv = Raised \<longrightarrow>
            Sent \<notin> set (snd (process_result cfg tick r dlv ts conn))
            \<and> fst (alert_rule cfg r dlv ts conn) = conn
            \<and> notifications (fst (process_result cfg tick r dlv ts conn)) = notifications conn"
  proof
    assume "\<not> notify_gate cfg r \<or> dlv = Raised"
    then have ns: "Sent \<notin> set (snd (alert_rule cfg r dlv ts conn))"
      by (auto simp: alert_rule_sent)
    then have c: "fst (alert_rule cfg r dlv ts conn) = conn" by (rule alert_rule_not_sent)
    show "Sent \<notin> set (snd (process_result cfg tick r dlv ts conn))
            \<and> fst (alert_rule cfg r dlv ts conn) = conn
            \<and> notifications (fst (process_result cfg tick r dlv ts conn)) = notifications conn"
      using ns c process_result_events[of Sent cfg tick r dlv ts conn]
      by (simp add: process_result_notifications)
  qed
  from a b show ?thesis by simp
qed

theorem alert_commit_after_delivery_witness:
  "Sent \<in> set (snd (process_result sample_config 2 (sample_item (JStr ''item-1'') (Some ''u'') 40)
       Delivered ''t'' (sample_store 100 None None)))
   \<and> get_floor (fst (process_result sample_config 2 (sample_item (JStr ''item-1'') (Some ''u'') 40)
       Delivered ''t'' (sample_store 100 None None))) ''Rare'' = Some 40
   \<and> get_notified (fst (process_result sample_config 2 (sample_item (JStr ''item-1'') (Some ''u'') 40)
       Delivered ''t'' (sample_store 100 None None))) ''item-1'' = Some 40
   \<and> fst (alert_rule sample_config (sample_item (JStr ''item-1'') (Some ''u'') 40) Raised ''t''
       (sample_store 100 None None)) = sample_store 100 None None"
proof -
  let ?r = "sample_item (JStr ''item-1'') (Some ''u'') 40"
  let ?c = "sample_store 100 None None"
  have a: "alert_condition (price_usd ?r) (stored_floor ?c ?r) (stored_threshold ?c ?r)"
    by (simp add: sample_defs store_defs engine_defs float_eval)
  have p: "price_usd ?r = Some 40" by (simp add: sample_defs)
  have s: "should_notify (last_notified_price ?c ?r) 40"
    by (simp add: sample_defs store_defs engine_defs)
  have g: "notify_gate sample_config ?r"
    by (simp add: sample_defs notify_gate_def truthy_str_def)
  have f: "rarity ?r = Some ''Rare''" "item_id ?r = JStr ''item-1''" "round2 40 = 40"
    by (simp_all add: sample_defs float_eval)
  from alert_commit_after_delivery [OF a p s, where cfg = sample_config and dlv = Delivered
      and tick = 2 and ts = "''t''"]
    alert_commit_after_delivery [OF a p s, where cfg = sample_config and dlv = Raised
      and tick = 2 and ts = "''t''"] g f
  show ?thesis by simp
qed

text \<open>
  Claim C4: for a record with a converted price and a rarity, the floor of that rarity
  is the rounded price after tick 1 and after every tick divisible by three, whatever
  the alert rule did; on any other tick on which no alert fires the stored floors are
  as before, and on any other tick on which no alert is delivered the whole store is
  as before.
\<close>

theorem floor_cadence:
  assumes "price_usd r = Some p" and "rarity r = Some rar"
  shows "(tick = 1 \<or> tick mod 3 = 0 \<longrightarrow>
            get_floor (fst (process_result cfg tick r dlv ts conn)) rar = Some (round2 p))
       \<and> (tick \<noteq> 1 \<and> tick mod 3 \<noteq> 0 \<and> Trigger \<notin> set (snd (process_result cfg tick r dlv ts conn)) \<longrightarrow>
            floors (fst (process_result cfg tick r dlv ts conn)) = floors conn)
       \<and> (tick \<noteq> 1 \<and> tick mod 3 \<noteq> 0 \<and> Sent \<notin> set (snd (process_result cfg tick r dlv ts conn)) \<longrightarrow>
            fst (process_result cfg tick r dlv ts conn) = conn)"
proof -
  let ?a = "fst (alert_rule cfg r dlv ts conn)"
  have set: "tick = 1 \<or> tick mod 3 = 0 \<longrightarrow>
            get_floor (fst (process_result cfg tick r dlv ts conn)) rar = Some (round2 p)"
    by (auto simp: process_result_unfold init_rule_floor[OF assms] refresh_rule_floor[OF assms])
  have quiet: "tick \<noteq> 1 \<and> tick mod 3 \<noteq> 0 \<longrightarrow> fst (process_result cfg tick r dlv ts conn) = ?a"
    by (simp add: process_result_unfold init_rule_floor[OF assms] refresh_rule_floor[OF assms])
  have sent: "Sent \<notin> set (snd (process_result cfg tick r dlv ts conn)) \<longrightarrow> ?a = conn"
    using process_result_events[of Sent cfg tick r dlv ts conn] alert_rule_not_sent[of cfg r dlv ts conn]
    by simp
  have trig: "Trigger \<notin> set (snd (process_result cfg tick r dlv ts conn)) \<longrightarrow> ?a = conn"
    using process_result_events[of Trigger cfg tick r dlv ts conn] alert_rule_silent[of r conn cfg dlv ts]
    by (simp add: alert_rule_trigger)
  from set quiet sent trig show ?thesis by auto
qed

text \<open>
  Over ticks 1 to 6 with the prices 10, 11, 12, 13, 14, 15, the default threshold and
  an empty store at the start, no alert fires and the floor is written on ticks 1, 3
  and 6 only.
\<close>

lemma floor_cadence_six_ticks: "map (\<lambda>c. get_floor c ''Rare'')
     (run sample_config (map (watch (JStr ''item-1'') (Some ''u'') Delivered) [10, 11, 12, 13, 14, 15]) empty_store)
   = [Some 10, Some 10, Some 12, Some 12, Some 12, Some 15]"
  by (simp add: run_def ensure_threshold_column_def watch_def sample_defs store_defs engine_defs float_eval Let_def)

theorem floor_cadence_witness:
  "get_floor (fst (process_result sample_config 3 (sample_item (JStr ''item-1'') (Some ''u'') 12)
       Delivered ''t'' (sample_store 10 None None))) ''Rare'' = Some 12
   \<and> Trigger \<notin> set (snd (process_result sample_config 2 (sample_item (JStr ''item-1'') (Some ''u'') 11)
       Delivered ''t'' (sample_store 10 None None)))
   \<and> fst (process_result sample_config 2 (sample_item (JStr ''item-1'') (Some ''u'') 11)
       Delivered ''t'' (sample_store 10 None None)) = sample_store 10 None None"
proof -
  have p: "\<And>q. price_usd (sample_item (JStr ''item-1'') (Some ''u'') q) = Some q"
    and r: "\<And>q. rarity (sample_item (JStr ''item-1'') (Some ''u'') q) = Some ''Rare''"
    by (simp_all add: sample_defs)
  have t: "Trigger \<notin> set (snd (process_result sample_config 2 (sample_item (JStr ''item-1'') (Some ''u'') 11)
       Delivered ''t'' (sample_store 10 None None)))"
    by (simp add: sample_defs store_defs engine_defs float_eval)
  have s: "Sent \<notin> set (snd (process_result sample_config 2 (sample_item (JStr ''item-1'') (Some ''u'') 11)
       Delivered ''t'' (sample_store 10 None None)))"
    by (simp add: sample_defs store_defs engine_defs float_eval)
  have r12: "round2 12 = 12" by (simp add: float_eval)
  from floor_cadence [where r = "sample_item (JStr ''item-1'') (Some ''u'') 12" and p = 12
      and rar = "''Rare''" and tick = 3 and cfg = sample_config and dlv = Delivered
      and ts = "''t''" and conn = "sample_store 10 None None"]
    floor_cadence [where r = "sample_item (JStr ''item-1'') (Some ''u'') 11" and p = 11
      and rar = "''Rare''" and tick = 2 and cfg = sample_config and dlv = Delivered
      and ts = "''t''" and conn = "sample_store 10 None None"]
    p r t s r12
  show ?thesis by simp
qed

text \<open>
  Claim C5 says that the comparison with the stored last notified price uses prices
  rounded to two decimals. The source compares the unrounded \<open>price_usd\<close> with the
  stored value (line 610), while the alert comparison of line 605 and both writes
  round. With 40.00 stored and a new price of 39.996, which rounds to 40.00, the alert
  is delivered again and the record holds 40.00 as before.
\<close>

theorem dedup_compares_unrounded_price:
  "round2 39.996 = 40
   \<and> get_notified (sample_store 100 None (Some 40)) ''item-1'' = Some 40
   \<and> snd (process_result sample_config 2 (sample_item (JStr ''item-1'') (Some ''u'') 39.996)
        Delivered ''t'' (sample_store 100 None (Some 40)))
      = [Compare, Trigger, Sending, Sent, FloorImmediate]
   \<and> get_notified (fst (process_result sample_config 2 (sample_item (JStr ''item-1'') (Some ''u'') 39.996)
        Delivered ''t'' (sample_store 100 None (Some 40)))) ''item-1'' = Some 40"
  by (simp add: sample_defs store_defs engine_defs float_eval)

text \<open>
  The literal 39.996 denotes the float nearest to it, which lies a little above; for
  that float the outcome is the same.
\<close>

lemma dedup_unrounded_price_float:
  "binary64 39.996 = 5628936584259699 / 140737488355328
   \<and> round2 (binary64 39.996) = 40
   \<and> snd (process_result sample_config 2 (sample_item (JStr ''item-1'') (Some ''u'') (binary64 39.996))
        Delivered ''t'' (sample_store 100 None (Some 40)))
      = [Compare, Trigger, Sending, Sent, FloorImmediate]
   \<and> get_notified (fst (process_result sample_config 2
        (sample_item (JStr ''item-1'') (Some ''u'') (binary64 39.996))
        Delivered ''t'' (sample_store 100 None (Some 40)))) ''item-1'' = Some 40"
proof -
  have b: "binary64 39.996 = 5628936584259699 / 140737488355328"
    by (simp add: binary64_eval)
  show ?thesis
    unfolding b by (simp add: sample_defs store_defs engine_defs float_eval)
qed

text \<open>
  Claim C10, as stated: for an item without a string id the notification is tried
  whenever the alert condition fires. The item below has no string id and no image;
  the alert condition fires and no delivery is tried.
\<close>

theorem no_id_alert_not_attempted:
  "item_id (sample_item JNull None 40) = JNull
   \<and> alert_condition (price_usd (sample_item JNull None 40))
      (stored_floor (sample_store 100 None None) (sample_item JNull None 40))
      (stored_threshold (sample_store 100 None None) (sample_item JNull None 40))
   \<and> snd (process_result sample_config 2 (sample_item JNull None 40) Delivered ''t''
        (sample_store 100 None None)) = [Compare, Trigger]"
  by (simp add: sample_defs store_defs engine_defs float_eval)

lemma alert_rule_notifications_no_id:
  "\<forall>i. item_id r \<noteq> JStr i \<Longrightarrow> notifications (fst (alert_rule cfg r dlv ts conn)) = notifications conn"
  by (cases "item_id r")
     (auto simp: alert_rule_def Let_def split: option.splits delivery.splits)

text \<open>
  Claim C10, amended: for an item whose id is not a string the last notified price is
  never looked up, so the check against it always passes; a delivery is tried exactly
  when the alert condition fires and a bot, a channel and an image are there; and the
  notification table is never written for it, so the item can alert on every tick on
  which the condition holds.
\<close>

theorem no_string_id_skips_dedup:
  assumes "\<forall>i. item_id r \<noteq> JStr i"
  shows "last_notified_price conn r = None
       \<and> (\<forall>p. should_notify (last_notified_price conn r) p)
       \<and> (Sending \<in> set (snd (process_result cfg tick r dlv ts conn)) \<longleftrightarrow>
            alert_condition (price_usd r) (stored_floor conn r) (stored_threshold conn r)
            \<and> notify_gate cfg r)
       \<and> notifications (fst (process_result cfg tick r dlv ts conn)) = notifications conn"
proof -
  have l: "last_notified_price conn r = None"
    using assms by (cases "item_id r") (simp_all add: last_notified_price_def)
  have s: "\<forall>p. should_notify (last_notified_price conn r) p"
    by (simp add: l should_notify_def)
  have e: "Sending \<in> set (snd (process_result cfg tick r dlv ts conn)) \<longleftrightarrow>
            alert_condition (price_usd r) (stored_floor conn r) (stored_threshold conn r)
            \<and> notify_gate cfg r"
    using process_result_events[of Sending cfg tick r dlv ts conn] s
    by (auto simp: alert_rule_sending alert_condition_def split: option.splits)
  have n: "notifications (fst (process_result cfg tick r dlv ts conn)) = notifications conn"
    using alert_rule_notifications_no_id[OF assms] by (simp add: process_result_notifications)
  from l s e n show ?thesis by simp
qed

theorem no_string_id_skips_dedup_witness:
  "Sending \<in> set (snd (process_result sample_config 2 (sample_item JNull (Some ''u'') 0) Delivered ''t''
       (sample_store 10 (Some 100) None)))
   \<and> Sending \<in> set (snd (process_result sample_config 4 (sample_item JNull (Some ''u'') 0) Delivered ''t''
       (fst (process_result sample_config 2 (sample_item JNull (Some ''u'') 0) Delivered ''t''
          (sample_store 10 (Some 100) None)))))
   \<and> notifications (fst (process_result sample_config 2 (sample_item JNull (Some ''u'') 0) Delivered ''t''
       (sample_store 10 (Some 100) None))) = notifications (sample_store 10 (Some 100) None)"
proof -
  let ?r = "sample_item JNull (Some ''u'') 0"
  let ?c = "sample_store 10 (Some 100) None"
  let ?c' = "fst (process_result sample_config 2 ?r Delivered ''t'' ?c)"
  have i: "\<forall>i. item_id ?r \<noteq> JStr i" by (simp add: sample_defs)
  have g: "notify_gate sample_config ?r"
    by (simp add: sample_defs notify_gate_def truthy_str_def)
  have a: "alert_condition (price_usd ?r) (stored_floor ?c ?r) (stored_threshold ?c ?r)"
    by (simp add: sample_defs store_defs engine_defs float_eval)
  have a': "alert_condition (price_usd ?r) (stored_floor ?c' ?r) (stored_threshold ?c' ?r)"
    by (simp add: sample_defs store_defs engine_defs float_eval)
  from no_string_id_skips_dedup [OF i, where conn = ?c and cfg = sample_config and tick = 2
      and dlv = Delivered and ts = "''t''"]
    no_string_id_skips_dedup [OF i, where conn = ?c' and cfg = sample_config and tick = 4
      and dlv = Delivered and ts = "''t''"] g a a'
  show ?thesis by simp
qed

section \<open>Properties of the threshold command\<close>

lemmas string_defs = strip_def strip_by_def lstrip_by_def rstrip_by_def is_space_def
  lower_def lower_char_def upper_def upper_char_def

lemma parse_rare: "parse_set ''/set Rare, 30'' = Inr (''Rare'', ''30'')"
  by (simp add: parse_set_def rarity_norm_def rarities_def string_defs Let_def)

lemma parse_zero: "parse_set ''/set epic 0'' = Inr (''Epic'', ''0'')"
  by (simp add: parse_set_def rarity_norm_def rarities_def string_defs Let_def)

lemma parse_over: "parse_set ''/set Common, 100.5'' = Inr (''Common'', ''100.5'')"
  by (simp add: parse_set_def rarity_norm_def rarities_def string_defs Let_def)

lemma get_threshold_set_threshold: "get_threshold (set_threshold c r p) r = p"
  by (simp add: get_threshold_def set_threshold_def split: option.splits)

lemma get_floor_set_threshold: "get_floor (set_threshold c r p) r' = get_floor c r'"
  by (simp add: get_floor_def set_threshold_def split: option.splits)

lemma notifications_set_threshold: "notifications (set_threshold c r p) = notifications c"
  by (simp add: set_threshold_def)

lemma get_threshold_set_threshold_other:
  "r' \<noteq> r \<Longrightarrow> get_threshold (set_threshold c r p) r' = get_threshold c r'"
  by (simp add: get_threshold_def set_threshold_def)

lemma rarity_norm_in: "rarity_norm s = Some r \<Longrightarrow> r \<in> set rarities"
  unfolding rarity_norm_def by (drule map_of_SomeD) auto

lemma parse_set_rarity: "parse_set t = Inr (r, pin) \<Longrightarrow> r \<in> set rarities"
  by (auto simp: parse_set_def Let_def split: if_splits option.splits dest: rarity_norm_in)

lemma handle_set_writes:
  "fst (handle_set to_float msg conn) = conn
   \<or> (\<exists>r p. r \<in> set rarities \<and> 0 < p \<and> p \<le> 100
         \<and> handle_set to_float msg conn = (set_threshold conn r p, Some (ThresholdUpdated r p)))"
  by (auto simp: handle_set_def split: option.splits sum.splits if_splits dest: parse_set_rarity)

text \<open>
  Claim C6: for a message that names a rarity and a percentage \<open>p\<close>, the write is
  rejected when \<open>p \<le> 0\<close> or \<open>p > 100\<close>: the store is as before and the reply asks for
  a percentage between 1 and 100. When \<open>0 < p \<le> 100\<close> the threshold of that rarity
  becomes \<open>p\<close>, whatever it was, and the floor price of every rarity and the
  notification table are as before.
\<close>

theorem threshold_write_validated:
  assumes "t \<noteq> []" and "parse_set t = Inr (r, pin)" and "to_float pin = Some p"
  shows "r \<in> set rarities
       \<and> (p \<le> 0 \<or> 100 < p \<longrightarrow> handle_set to_float (Some t) conn = (conn, Some PercentInvalid))
       \<and> (0 < p \<and> p \<le> 100 \<longrightarrow>
            handle_set to_float (Some t) conn = (set_threshold conn r p, Some (ThresholdUpdated r p))
            \<and> get_threshold (fst (handle_set to_float (Some t) conn)) r = p
            \<and> (\<forall>r'. get_floor (fst (handle_set to_float (Some t) conn)) r' = get_floor conn r')
            \<and> notifications (fst (handle_set to_float (Some t) conn)) = notifications conn)"
  using assms
  by (auto simp: handle_set_def get_threshold_set_threshold get_floor_set_threshold
      notifications_set_threshold dest: parse_set_rarity)

theorem threshold_write_validated_witness:
  "handle_set sample_float (Some ''/set Rare, 30'') (sample_store 100 (Some 50) None)
     = (set_threshold (sample_store 100 (Some 50) None) ''Rare'' 30, Some (ThresholdUpdated ''Rare'' 30))
   \<and> get_threshold (sample_store 100 (Some 50) None) ''Rare'' = 50
   \<and> get_threshold (fst (handle_set sample_float (Some ''/set Rare, 30'') (sample_store 100 (Some 50) None))) ''Rare'' = 30
   \<and> get_floor (fst (handle_set sample_float (Some ''/set Rare, 30'') (sample_store 100 (Some 50) None))) ''Rare'' = Some 100
   \<and> handle_set sample_float (Some ''/set epic 0'') (sample_store 100 (Some 50) None)
     = (sample_store 100 (Some 50) None, Some PercentInvalid)
   \<and> handle_set sample_float (Some ''/set Common, 100.5'') (sample_store 100 (Some 50) None)
     = (sample_store 100 (Some 50) None, Some PercentInvalid)"
proof -
  let ?c = "sample_store 100 (Some 50) None"
  have f: "sample_float ''30'' = Some 30" "sample_float ''0'' = Some 0"
    "sample_float ''100.5'' = Some 100.5"
    by (simp_all add: sample_float_def)
  have g: "get_threshold ?c ''Rare'' = 50" "get_floor ?c ''Rare'' = Some 100"
    by (simp_all add: sample_store_def get_threshold_def get_floor_def)
  have ne: "''/set Rare, 30'' \<noteq> []" "''/set epic 0'' \<noteq> []" "''/set Common, 100.5'' \<noteq> []"
    by simp_all
  have 1: "handle_set sample_float (Some ''/set Rare, 30'') ?c
             = (set_threshold ?c ''Rare'' 30, Some (ThresholdUpdated ''Rare'' 30))
           \<and> get_threshold (fst (handle_set sample_float (Some ''/set Rare, 30'') ?c)) ''Rare'' = 30
           \<and> get_floor (fst (handle_set sample_float (Some ''/set Rare, 30'') ?c)) ''Rare'' = get_floor ?c ''Rare''"
    using threshold_write_validated [where t = "''/set Rare, 30''" and r = "''Rare''" and pin = "''30''"
        and p = "30" and to_float = sample_float and conn = ?c]
      ne(1) parse_rare f(1)
    by (auto simp: get_threshold_set_threshold get_floor_set_threshold)
  have 2: "handle_set sample_float (Some ''/set epic 0'') ?c = (?c, Some PercentInvalid)"
    using threshold_write_validated [where t = "''/set epic 0''" and r = "''Epic''" and pin = "''0''"
        and p = "0" and to_float = sample_float and conn = ?c]
      ne(2) parse_zero f(2) by simp
  have 3: "handle_set sample_float (Some ''/set Common, 100.5'') ?c = (?c, Some PercentInvalid)"
    using threshold_write_validated [where t = "''/set Common, 100.5''" and r = "''Common''" and pin = "''100.5''"
        and p = "100.5" and to_float = sample_float and conn = ?c]
      ne(3) parse_over f(3) by simp
  from 1 2 3 g show ?thesis by auto
qed

section \<open>Properties of the metadata resolver\<close>

lemmas json_defs = dict_get_def or_else_def str_upper_def str_lower_def py_str_def
  media_matches_def media_image_def preferred_def truthy_str_def

lemmas normalize_defs = normalize_ipfs_def strip_chars_def startswith_def removeprefix_def

text \<open>
  Claim C9 says that the image is the first media entry that matches by the order
  ORIGINAL, BIG, PREVIEW when there is one, and one of the flat keys only otherwise.
  In the source the loop over the flat keys (lines 209 to 213) runs without regard to
  what the media entries gave and overwrites it. For a document with an ORIGINAL image
  entry and the key \<open>image\<close>, the media entries give the entry's URL and the function
  returns the URL of the flat key.
\<close>

theorem flat_image_overrides_media_entry:
  "media_image (\<lambda>v. []) sample_metadata = Inr (Some ''https://cdn.example/original.png'')
   \<and> extract_from_metadata (\<lambda>v. []) sample_metadata
       = Inr \<lparr>meta_name = Some ''Wink 7'', meta_image_url = Some ''https://cdn.example/flat.png'',
              meta_rarity = None\<rparr>"
  by (simp add: extract_from_metadata_def sample_metadata_def json_defs string_defs normalize_defs)

end
